theory Spec2Isabelle
  imports Main
begin

section \<open>Data model\<close>

text \<open>
  Go errors. \<open>ErrorString m\<close> is an error carrying the message \<open>m\<close> (\<open>errors.New\<close>, or
  \<open>fmt.Errorf\<close> without \<open>%w\<close>, the message already formatted); \<open>Wrapped p e\<close> is the
  error \<open>e\<close> under the context \<open>p\<close>, as \<open>fmt.Errorf("p: %w", e)\<close> builds it;
  \<open>ErrServerClosed\<close> is the sentinel \<open>http.ErrServerClosed\<close>, which the source compares by
  identity.
\<close>

datatype error = ErrorString string | Wrapped string error | ErrServerClosed

text \<open>
  A Go call either returns its value or panics (the \<open>MustGet...\<close> helpers panic on a flag
  that was never defined).
\<close>

datatype 'a outcome = Returns 'a | Panics

text \<open>
  \<open>pflag.Flag\<close>: the fields the source reads. \<open>Value\<close> is the \<open>pflag.Value\<close> interface
  value of the flag; its dynamic type is left open (\<open>'v\<close>).
\<close>

record 'v Flag =
  Name :: string
  Value :: 'v
  Changed :: bool

text \<open>
  \<open>cobra.Command\<close>: \<open>Use\<close> and the flag set \<open>cmd.Flags()\<close>, the formal flags in the order
  \<open>VisitAll\<close> visits them. pflag keys its flags by name, so the names of a flag set are
  distinct; the theorems that need this say so.
\<close>

record 'v Command =
  Use :: string
  Flags :: "'v Flag list"

text \<open>
  \<open>CobraRunFunc\<close>, \<open>func(cmd *cobra.Command, args []string) error\<close>. The command is passed
  by pointer and the hooks also write process-wide state, so a hook takes the command's
  contents \<open>'c\<close> and the global state \<open>'g\<close> and returns both, with its error (\<open>None\<close> is
  \<open>nil\<close>).
\<close>

type_synonym ('c, 'g, 'e) CobraRunFunc =
  "'c \<Rightarrow> string list \<Rightarrow> 'g \<Rightarrow> 'e option outcome \<times> 'c \<times> 'g"

section \<open>CommandStack\<close>

text \<open>
  The loop \<open>for _, cmdfn := range cmdfns\<close>: every hook gets the same \<open>cmd\<close> and \<open>args\<close>;
  the first hook that does not return \<open>nil\<close> ends the loop with its result.
\<close>

fun CommandStack :: "('c, 'g, 'e) CobraRunFunc list \<Rightarrow> ('c, 'g, 'e) CobraRunFunc" where
  "CommandStack [] cmd args g = (Returns None, cmd, g)"
| "CommandStack (cmdfn # cmdfns) cmd args g =
     (case cmdfn cmd args g of
        (Returns None, cmd', g') \<Rightarrow> CommandStack cmdfns cmd' args g'
      | (Returns (Some err), cmd', g') \<Rightarrow> (Returns (Some err), cmd', g')
      | (Panics, cmd', g') \<Rightarrow> (Panics, cmd', g'))"

section \<open>Process-wide state and the libraries the package calls\<close>

text \<open>
  \<open>zerolog.Level\<close>, and the writer of the global logger \<open>log.Logger\<close>: either a plain
  writer on a file or a \<open>zerolog.ConsoleWriter\<close> on it.
\<close>

datatype Level =
  DebugLevel | InfoLevel | WarnLevel | ErrorLevel | FatalLevel | PanicLevel | NoLevel
  | Disabled | TraceLevel

datatype File = Stdout | Stderr

datatype Writer = PlainWriter File | ConsoleWriter File

text \<open>What \<open>initJaegerTracer\<close> installs: the tracer provider and the propagator.\<close>

datatype Exporter = JaegerCollector string

datatype Sampler = AlwaysSample

datatype SpanProcessor = BatchSpanProcessor Exporter

datatype TracerProvider = NewTracerProvider Sampler SpanProcessor string

datatype Propagator = TraceContext

text \<open>gRPC and HTTP servers as the source builds them.\<close>

datatype TransportCredentials = ServerTLSFromFile string string

datatype ServerOption = KeepaliveParams int | Creds TransportCredentials | CallerOption string

datatype GrpcServer = NewServer "ServerOption list"

record HttpServer =
  Addr :: string

text \<open>The calls that reach the network, recorded in the order they are made.\<close>

datatype NetCall =
  ListenCall string
  | ServeCall GrpcServer string
  | ListenAndServeCall HttpServer
  | ListenAndServeTLSCall HttpServer string string

text \<open>
  The process-wide state the package writes: the environment prefix of the global viper
  instance, the global logger's writer, zerolog's global level, the events handed to the
  global logger (level, string fields, message), the global tracer provider and propagator
  of OpenTelemetry (\<open>None\<close>: nothing installed), and the network calls made so far.
\<close>

record World =
  EnvPrefix :: string
  Logger :: Writer
  GlobalLevel :: Level
  Logged :: "(Level \<times> (string \<times> string) list \<times> string) list"
  GlobalTracerProvider :: "TracerProvider option"
  TextMapPropagator :: "Propagator option"
  NetCalls :: "NetCall list"

text \<open>
  What the source calls and does not define, taken as parameters.
  \<^item> \<open>ToUpper\<close>, \<open>ToLower\<close>: \<open>strings.ToUpper\<close>, \<open>strings.ToLower\<close>.
  \<^item> \<open>LookupEnv\<close>: \<open>os.LookupEnv\<close>, the process environment.
  \<^item> \<open>StdoutIsTerminal\<close>: \<open>isatty.IsTerminal(os.Stdout.Fd())\<close>.
  \<^item> \<open>ValueSet\<close>: the method \<open>Set\<close> of \<open>pflag.Value\<close>, from the flag's value and the text
    to the error and the value it leaves.
  \<^item> \<open>MustGetString\<close>, \<open>MustGetStringExpanded\<close>, \<open>MustGetBool\<close>, \<open>MustGetDuration\<close>:
    helpers of this package defined outside the file at hand; \<open>None\<close> is their panic.
    Durations are nanoseconds.
  \<^item> \<open>JaegerNew\<close>: whether \<open>jaeger.New\<close> fails for a collector endpoint.
  \<^item> \<open>NewServerTLSFromFile\<close>: whether \<open>credentials.NewServerTLSFromFile\<close> fails.
  \<^item> \<open>NetListen\<close>: whether \<open>net.Listen("tcp", addr)\<close> fails.
  \<^item> \<open>Serve\<close>, \<open>ListenAndServe\<close>, \<open>ListenAndServeTLS\<close>: the error with which the
    blocking serve call of the server returns, when it returns.
\<close>

record 'v Externals =
  ToUpper :: "string \<Rightarrow> string"
  ToLower :: "string \<Rightarrow> string"
  LookupEnv :: "string \<Rightarrow> string option"
  StdoutIsTerminal :: bool
  ValueSet :: "'v \<Rightarrow> string \<Rightarrow> error option \<times> 'v"
  MustGetString :: "'v Command \<Rightarrow> string \<Rightarrow> string option"
  MustGetStringExpanded :: "'v Command \<Rightarrow> string \<Rightarrow> string option"
  MustGetBool :: "'v Command \<Rightarrow> string \<Rightarrow> bool option"
  MustGetDuration :: "'v Command \<Rightarrow> string \<Rightarrow> int option"
  JaegerNew :: "string \<Rightarrow> error option"
  NewServerTLSFromFile :: "string \<Rightarrow> string \<Rightarrow> error option"
  NetListen :: "string \<Rightarrow> error option"
  Serve :: "GrpcServer \<Rightarrow> string \<Rightarrow> error option"
  ListenAndServe :: "HttpServer \<Rightarrow> error option"
  ListenAndServeTLS :: "HttpServer \<Rightarrow> string \<Rightarrow> string \<Rightarrow> error option"

text \<open>\<open>stringz.DefaultEmpty\<close> and \<open>strings.ReplaceAll\<close> for a one-byte old and new.\<close>

definition DefaultEmpty :: "string \<Rightarrow> string \<Rightarrow> string" where
  "DefaultEmpty val fallback = (if val = [] then fallback else val)"

definition ReplaceAll :: "string \<Rightarrow> char \<Rightarrow> char \<Rightarrow> string" where
  "ReplaceAll s old new = map (\<lambda>c. if c = old then new else c) s"

text \<open>Appending an event to the global logger, and a network call to the record.\<close>

definition logEvent :: "Level \<Rightarrow> (string \<times> string) list \<Rightarrow> string \<Rightarrow> World \<Rightarrow> World" where
  "logEvent lvl strs msg w = w\<lparr>Logged := Logged w @ [(lvl, strs, msg)]\<rparr>"

definition netCall :: "NetCall \<Rightarrow> World \<Rightarrow> World" where
  "netCall c w = w\<lparr>NetCalls := NetCalls w @ [c]\<rparr>"

section \<open>IsBuiltinCommand\<close>

definition IsBuiltinCommand :: "'v Command \<Rightarrow> bool" where
  "IsBuiltinCommand cmd \<longleftrightarrow> Use cmd \<in> set [''help [command]'', ''completion [command]'']"

section \<open>SyncViperPreRunE\<close>

text \<open>
  \<open>(*FlagSet).Lookup\<close> and \<open>(*FlagSet).Set\<close> of pflag. \<open>Set\<close> fails on an unknown name and
  when the value's \<open>Set\<close> fails (the flag then keeps \<open>Changed\<close>); on success it marks the
  flag as changed. \<open>applySet\<close> is what \<open>Set\<close> does to the flag it has found.
\<close>

fun Lookup :: "'v Flag list \<Rightarrow> string \<Rightarrow> 'v Flag option" where
  "Lookup [] name = None"
| "Lookup (f # fs) name = (if Name f = name then Some f else Lookup fs name)"

definition applySet ::
  "('v \<Rightarrow> string \<Rightarrow> error option \<times> 'v) \<Rightarrow> 'v Flag \<Rightarrow> string \<Rightarrow> error option \<times> 'v Flag" where
  "applySet vset f val =
     (case vset (Value f) val of
        (Some err, v') \<Rightarrow> (Some (Wrapped (''invalid argument for flag '' @ Name f) err), f\<lparr>Value := v'\<rparr>)
      | (None, v') \<Rightarrow> (None, f\<lparr>Value := v', Changed := True\<rparr>))"

fun FlagSet_Set ::
  "('v \<Rightarrow> string \<Rightarrow> error option \<times> 'v) \<Rightarrow> 'v Flag list \<Rightarrow> string \<Rightarrow> string
   \<Rightarrow> error option \<times> 'v Flag list" where
  "FlagSet_Set vset [] name val = (Some (ErrorString (''no such flag -'' @ name)), [])"
| "FlagSet_Set vset (f # fs) name val =
     (if Name f = name then (case applySet vset f val of (e, f') \<Rightarrow> (e, f' # fs))
      else (case FlagSet_Set vset fs name val of (e, fs') \<Rightarrow> (e, f # fs')))"

text \<open>
  viper on the fresh instance \<open>v\<close>: a key bound by \<open>BindEnv\<close> to one variable is set when
  that variable is in the environment with a non-empty value (\<open>getEnv\<close> of viper, empty
  values not allowed by default), and \<open>Get\<close> returns that text. \<open>SetEnvPrefix\<close> on the
  global instance stores the prefix unless it is empty.
\<close>

definition getEnv :: "'v Externals \<Rightarrow> string \<Rightarrow> string option" where
  "getEnv X key =
     (case LookupEnv X key of
        Some val \<Rightarrow> if val \<noteq> [] then Some val else None
      | None \<Rightarrow> None)"

definition IsSet :: "'v Externals \<Rightarrow> string \<Rightarrow> bool" where
  "IsSet X key \<longleftrightarrow> getEnv X key \<noteq> None"

definition Get :: "'v Externals \<Rightarrow> string \<Rightarrow> string option" where
  "Get X key = getEnv X key"

definition SetEnvPrefix :: "string \<Rightarrow> World \<Rightarrow> World" where
  "SetEnvPrefix p w = (if p \<noteq> [] then w\<lparr>EnvPrefix := p\<rparr> else w)"

text \<open>\<open>fmt.Sprintf("%v", val)\<close> for what \<open>Get\<close> returns: a string, or \<open>nil\<close>.\<close>

definition Sprintf_v :: "string option \<Rightarrow> string" where
  "Sprintf_v val = (case val of None \<Rightarrow> ''<nil>'' | Some s \<Rightarrow> s)"

text \<open>
  The body of the closure given to \<open>VisitAll\<close>, for the flag \<open>f\<close> found under \<open>name\<close>:
  the key is bound to the variable \<open>prefix_SUFFIX\<close>, and the flag is set from it only when
  \<open>!f.Changed && v.IsSet(f.Name)\<close>; the error of \<open>Set\<close> is dropped (\<open>_ =\<close>).
\<close>

definition envName :: "'v Externals \<Rightarrow> string \<Rightarrow> string \<Rightarrow> string" where
  "envName X prefix name = prefix @ ''_'' @ ToUpper X (ReplaceAll name (CHR ''-'') (CHR ''_''))"

definition syncFlag :: "'v Externals \<Rightarrow> string \<Rightarrow> string \<Rightarrow> 'v Flag list \<Rightarrow> 'v Flag list" where
  "syncFlag X prefix name flags =
     (case Lookup flags name of
        None \<Rightarrow> flags
      | Some f \<Rightarrow>
          (let key = envName X prefix (Name f) in
           if \<not> Changed f \<and> IsSet X key
           then snd (FlagSet_Set (ValueSet X) flags (Name f) (Sprintf_v (Get X key)))
           else flags))"

text \<open>
  \<open>VisitAll\<close> walks the formal flags; the closure reaches each flag through its pointer,
  here through its name in the current flag set.
\<close>

definition VisitAll :: "'v Flag list \<Rightarrow> (string \<Rightarrow> 'v Flag list \<Rightarrow> 'v Flag list) \<Rightarrow> 'v Flag list" where
  "VisitAll flags fn = fold fn (map Name flags) flags"

definition SyncViperPreRunE :: "'v Externals \<Rightarrow> string \<Rightarrow> ('v Command, World, error) CobraRunFunc" where
  "SyncViperPreRunE X prefix0 cmd args w =
     (let prefix = ReplaceAll (ToUpper X prefix0) (CHR ''-'') (CHR ''_'') in
      if IsBuiltinCommand cmd then (Returns None, cmd, w)
      else (Returns None,
            cmd\<lparr>Flags := VisitAll (Flags cmd) (syncFlag X prefix)\<rparr>,
            SetEnvPrefix prefix w))"

section \<open>ZeroLogPreRunE\<close>

definition SetGlobalLevel :: "Level \<Rightarrow> World \<Rightarrow> World" where
  "SetGlobalLevel l w = w\<lparr>GlobalLevel := l\<rparr>"

text \<open>
  The format is applied first: the console writer replaces the global logger's writer for
  \<open>human\<close>, and for \<open>auto\<close> on a terminal; no other value is looked at. Then the switch on
  the lower-cased level, and the event logged at \<open>prerunLevel\<close> after it.
\<close>

definition ZeroLogPreRunE ::
  "'v Externals \<Rightarrow> string \<Rightarrow> Level \<Rightarrow> ('v Command, World, error) CobraRunFunc" where
  "ZeroLogPreRunE X flagPrefix0 prerunLevel cmd args w =
     (let flagPrefix = DefaultEmpty flagPrefix0 ''log'' in
      if IsBuiltinCommand cmd then (Returns None, cmd, w)
      else
        (case MustGetString X cmd (flagPrefix @ ''-format'') of
           None \<Rightarrow> (Panics, cmd, w)
         | Some format \<Rightarrow>
             (let w1 = (if format = ''human'' \<or> (format = ''auto'' \<and> StdoutIsTerminal X)
                        then w\<lparr>Logger := ConsoleWriter Stdout\<rparr> else w) in
              case MustGetString X cmd (flagPrefix @ ''-level'') of
                None \<Rightarrow> (Panics, cmd, w1)
              | Some lv \<Rightarrow>
                  (let level = ToLower X lv in
                   case (if level = ''trace'' then Some TraceLevel
                         else if level = ''debug'' then Some DebugLevel
                         else if level = ''info'' then Some InfoLevel
                         else if level = ''warn'' then Some WarnLevel
                         else if level = ''error'' then Some ErrorLevel
                         else if level = ''fatal'' then Some FatalLevel
                         else if level = ''panic'' then Some PanicLevel
                         else None) of
                     None \<Rightarrow> (Returns (Some (ErrorString (''unknown log level: '' @ level))), cmd, w1)
                   | Some l \<Rightarrow>
                       (Returns None, cmd,
                        logEvent prerunLevel [(''new level'', level)] ''set log level''
                          (SetGlobalLevel l w1))))))"

section \<open>OpenTelemetryPreRunE\<close>

definition initJaegerTracer ::
  "'v Externals \<Rightarrow> string \<Rightarrow> string \<Rightarrow> World \<Rightarrow> error option \<times> World" where
  "initJaegerTracer X endpoint serviceName w =
     (case JaegerNew X endpoint of
        Some err \<Rightarrow> (Some err, w)
      | None \<Rightarrow>
          (None,
           w\<lparr>GlobalTracerProvider :=
                Some (NewTracerProvider AlwaysSample (BatchSpanProcessor (JaegerCollector endpoint))
                        serviceName),
             TextMapPropagator := Some TraceContext\<rparr>))"

definition OpenTelemetryPreRunE ::
  "'v Externals \<Rightarrow> string \<Rightarrow> Level \<Rightarrow> ('v Command, World, error) CobraRunFunc" where
  "OpenTelemetryPreRunE X flagPrefix0 prerunLevel cmd args w =
     (let flagPrefix = DefaultEmpty flagPrefix0 ''otel'' in
      if IsBuiltinCommand cmd then (Returns None, cmd, w)
      else
        (case MustGetString X cmd (flagPrefix @ ''-provider'') of
           None \<Rightarrow> (Panics, cmd, w)
         | Some p \<Rightarrow>
             (let provider = ToLower X p in
              if provider = ''none'' then
                (Returns None, cmd,
                 logEvent prerunLevel [(''new provider'', provider)] ''set tracing provider'' w)
              else if provider = ''jaeger'' then
                (case MustGetString X cmd (flagPrefix @ ''-jaeger-endpoint'') of
                   None \<Rightarrow> (Panics, cmd, w)
                 | Some endpoint \<Rightarrow>
                     (case MustGetString X cmd (flagPrefix @ ''-jaeger-service-name'') of
                        None \<Rightarrow> (Panics, cmd, w)
                      | Some serviceName \<Rightarrow>
                          (case initJaegerTracer X endpoint serviceName w of
                             (err, w') \<Rightarrow> (Returns err, cmd, w'))))
              else (Returns (Some (ErrorString (''unknown tracing provider: '' @ provider))), cmd, w))))"

section \<open>gRPC server\<close>

definition GrpcServerFromFlags ::
  "'v Externals \<Rightarrow> 'v Command \<Rightarrow> string \<Rightarrow> ServerOption list \<Rightarrow> World
   \<Rightarrow> (error + GrpcServer) outcome \<times> World" where
  "GrpcServerFromFlags X cmd flagPrefix0 opts0 w =
     (let flagPrefix = DefaultEmpty flagPrefix0 ''grpc'' in
      case MustGetDuration X cmd (flagPrefix @ ''-max-conn-age'') of
        None \<Rightarrow> (Panics, w)
      | Some age \<Rightarrow>
          (let opts = opts0 @ [KeepaliveParams age] in
           case MustGetStringExpanded X cmd (flagPrefix @ ''-tls-cert-path'') of
             None \<Rightarrow> (Panics, w)
           | Some certPath \<Rightarrow>
               (case MustGetStringExpanded X cmd (flagPrefix @ ''-tls-key-path'') of
                  None \<Rightarrow> (Panics, w)
                | Some keyPath \<Rightarrow>
                    if certPath = [] \<and> keyPath = [] then
                      (Returns (Inr (NewServer opts)),
                       logEvent WarnLevel [(''prefix'', flagPrefix)] ''grpc server serving plaintext'' w)
                    else if certPath \<noteq> [] \<and> keyPath \<noteq> [] then
                      (case NewServerTLSFromFile X certPath keyPath of
                         Some err \<Rightarrow> (Returns (Inl err), w)
                       | None \<Rightarrow>
                           (Returns (Inr (NewServer
                              (opts @ [Creds (ServerTLSFromFile certPath keyPath)]))), w))
                    else
                      (Returns (Inl (ErrorString
                         (''failed to start gRPC server: must provide both --'' @ flagPrefix
                          @ ''-tls-cert-path and --'' @ flagPrefix @ ''-tls-key-path''))), w))))"

definition GrpcListenFromFlags ::
  "'v Externals \<Rightarrow> 'v Command \<Rightarrow> string \<Rightarrow> GrpcServer \<Rightarrow> World
   \<Rightarrow> error option outcome \<times> World" where
  "GrpcListenFromFlags X cmd flagPrefix0 srv w =
     (let flagPrefix = DefaultEmpty flagPrefix0 ''grpc'' in
      case MustGetBool X cmd (flagPrefix @ ''-enabled'') of
        None \<Rightarrow> (Panics, w)
      | Some enabled \<Rightarrow>
          if \<not> enabled then (Returns None, w)
          else
            (case MustGetStringExpanded X cmd (flagPrefix @ ''-addr'') of
               None \<Rightarrow> (Panics, w)
             | Some addr \<Rightarrow>
                 (let w1 = netCall (ListenCall addr) w in
                  case NetListen X addr of
                    Some err \<Rightarrow>
                      (Returns (Some (Wrapped ''failed to listen on addr for gRPC server'' err)), w1)
                  | None \<Rightarrow>
                      (let w2 = netCall (ServeCall srv addr) w1 in
                       case Serve X srv addr of
                         Some err \<Rightarrow> (Returns (Some (Wrapped ''failed to serve gRPC'' err)), w2)
                       | None \<Rightarrow> (Returns None, w2)))))"

section \<open>HTTP server\<close>

definition HttpServerFromFlags :: "'v Externals \<Rightarrow> 'v Command \<Rightarrow> string \<Rightarrow> HttpServer outcome" where
  "HttpServerFromFlags X cmd flagPrefix0 =
     (let flagPrefix = DefaultEmpty flagPrefix0 ''http'' in
      case MustGetStringExpanded X cmd (flagPrefix @ ''-addr'') of
        None \<Rightarrow> Panics
      | Some addr \<Rightarrow> Returns \<lparr>Addr = addr\<rparr>)"

text \<open>The prefix is used as given here: the source has no \<open>DefaultEmpty\<close> in this function.\<close>

definition HttpListenFromFlags ::
  "'v Externals \<Rightarrow> 'v Command \<Rightarrow> string \<Rightarrow> HttpServer \<Rightarrow> World
   \<Rightarrow> error option outcome \<times> World" where
  "HttpListenFromFlags X cmd flagPrefix srv w =
     (case MustGetBool X cmd (flagPrefix @ ''-enabled'') of
        None \<Rightarrow> (Panics, w)
      | Some enabled \<Rightarrow>
          if \<not> enabled then (Returns None, w)
          else
            (case MustGetStringExpanded X cmd (flagPrefix @ ''-tls-cert-path'') of
               None \<Rightarrow> (Panics, w)
             | Some certPath \<Rightarrow>
                 (case MustGetStringExpanded X cmd (flagPrefix @ ''-tls-key-path'') of
                    None \<Rightarrow> (Panics, w)
                  | Some keyPath \<Rightarrow>
                      if certPath = [] \<and> keyPath = [] then
                        (let w1 = netCall (ListenAndServeCall srv)
                                    (logEvent WarnLevel [(''prefix'', flagPrefix)]
                                       ''http server serving plaintext'' w) in
                         case ListenAndServe X srv of
                           Some err \<Rightarrow>
                             if err \<noteq> ErrServerClosed
                             then (Returns (Some (Wrapped ''failed while serving http'' err)), w1)
                             else (Returns None, w1)
                         | None \<Rightarrow> (Returns None, w1))
                      else if certPath \<noteq> [] \<and> keyPath \<noteq> [] then
                        (let w1 = netCall (ListenAndServeTLSCall srv certPath keyPath) w in
                         case ListenAndServeTLS X srv certPath keyPath of
                           Some err \<Rightarrow>
                             if err \<noteq> ErrServerClosed
                             then (Returns (Some (Wrapped ''failed while serving https'' err)), w1)
                             else (Returns None, w1)
                         | None \<Rightarrow> (Returns None, w1))
                      else
                        (Returns (Some (ErrorString
                           (''failed to start http server: must provide both --'' @ flagPrefix
                            @ ''-tls-cert-path and --'' @ flagPrefix @ ''-tls-key-path''))), w))))"

section \<open>An instance of the parameters\<close>

text \<open>
  To run the functions on concrete commands: strings of ASCII bytes, on which
  \<open>strings.ToLower\<close> and \<open>strings.ToUpper\<close> change the letters alone; the string and boolean
  values of pflag (\<open>stringValue.Set\<close> stores the text, \<open>boolValue.Set\<close> stores what
  \<open>strconv.ParseBool\<close> returns, also with its error); the \<open>MustGet...\<close> helpers reading the
  flag of that name and type, on values without \<open>$\<close> for the expanded one; a maximum
  connection age of 30 seconds, the registered default; a machine on which the exporter is
  built, the files load and the sockets bind; servers that are shut down cleanly.
\<close>

definition asciiToLower :: "string \<Rightarrow> string" where
  "asciiToLower s =
     map (\<lambda>c. case map_of (zip ''ABCDEFGHIJKLMNOPQRSTUVWXYZ'' ''abcdefghijklmnopqrstuvwxyz'') c of
                 Some d \<Rightarrow> d | None \<Rightarrow> c) s"

definition asciiToUpper :: "string \<Rightarrow> string" where
  "asciiToUpper s =
     map (\<lambda>c. case map_of (zip ''abcdefghijklmnopqrstuvwxyz'' ''ABCDEFGHIJKLMNOPQRSTUVWXYZ'') c of
                 Some d \<Rightarrow> d | None \<Rightarrow> c) s"

datatype Value = StringValue string | BoolValue bool

definition ParseBool :: "string \<Rightarrow> error + bool" where
  "ParseBool str =
     (if str \<in> set [''1'', ''t'', ''T'', ''TRUE'', ''true'', ''True''] then Inr True
      else if str \<in> set [''0'', ''f'', ''F'', ''FALSE'', ''false'', ''False''] then Inr False
      else Inl (ErrorString (''strconv.ParseBool: parsing '' @ str @ '': invalid syntax'')))"

fun pflagValueSet :: "Value \<Rightarrow> string \<Rightarrow> error option \<times> Value" where
  "pflagValueSet (StringValue old) val = (None, StringValue val)"
| "pflagValueSet (BoolValue old) val =
     (case ParseBool val of
        Inr b \<Rightarrow> (None, BoolValue b)
      | Inl err \<Rightarrow> (Some err, BoolValue False))"

definition flagString :: "Value Command \<Rightarrow> string \<Rightarrow> string option" where
  "flagString cmd name =
     (case Lookup (Flags cmd) name of
        Some f \<Rightarrow> (case Value f of StringValue s \<Rightarrow> Some s | BoolValue b \<Rightarrow> None)
      | None \<Rightarrow> None)"

definition flagBool :: "Value Command \<Rightarrow> string \<Rightarrow> bool option" where
  "flagBool cmd name =
     (case Lookup (Flags cmd) name of
        Some f \<Rightarrow> (case Value f of BoolValue b \<Rightarrow> Some b | StringValue s \<Rightarrow> None)
      | None \<Rightarrow> None)"

definition asciiExternals :: "(string \<times> string) list \<Rightarrow> Value Externals" where
  "asciiExternals env =
     \<lparr>ToUpper = asciiToUpper,
      ToLower = asciiToLower,
      LookupEnv = map_of env,
      StdoutIsTerminal = False,
      ValueSet = pflagValueSet,
      MustGetString = flagString,
      MustGetStringExpanded = flagString,
      MustGetBool = flagBool,
      MustGetDuration = (\<lambda>cmd name. Some 30000000000),
      JaegerNew = (\<lambda>endpoint. None),
      NewServerTLSFromFile = (\<lambda>certPath keyPath. None),
      NetListen = (\<lambda>addr. None),
      Serve = (\<lambda>srv addr. None),
      ListenAndServe = (\<lambda>srv. Some ErrServerClosed),
      ListenAndServeTLS = (\<lambda>srv certPath keyPath. Some ErrServerClosed)\<rparr>"

text \<open>
  A flag as registered (not changed), a flag given on the command line, and a state of the
  process before the hooks run.
\<close>

definition registered :: "string \<Rightarrow> 'v \<Rightarrow> 'v Flag" where
  "registered name val = \<lparr>Name = name, Value = val, Changed = False\<rparr>"

definition given :: "string \<Rightarrow> 'v \<Rightarrow> 'v Flag" where
  "given name val = \<lparr>Name = name, Value = val, Changed = True\<rparr>"

definition freshWorld :: World where
  "freshWorld =
     \<lparr>EnvPrefix = [], Logger = PlainWriter Stderr, GlobalLevel = InfoLevel, Logged = [],
      GlobalTracerProvider = None, TextMapPropagator = None, NetCalls = []\<rparr>"

text \<open>A hook that records its name in the global state and returns the given result.\<close>

definition recordingHook :: "string \<Rightarrow> 'e option \<Rightarrow> ('c, string list, 'e) CobraRunFunc" where
  "recordingHook name result cmd args g = (Returns result, cmd, g @ [name])"

text \<open>
  Hooks on a command that is the list of the names written to it: one that writes its name
  to the command, and one that returns the given error unless it finds the name \<open>need\<close> on
  the command. Both record their name in the global state.
\<close>

definition writingHook :: "string \<Rightarrow> (string list, string list, 'e) CobraRunFunc" where
  "writingHook name cmd args g = (Returns None, cmd @ [name], g @ [name])"

definition requiringHook :: "string \<Rightarrow> string \<Rightarrow> 'e \<Rightarrow> (string list, string list, 'e) CobraRunFunc" where
  "requiringHook need name err cmd args g =
     (if need \<in> set cmd then Returns None else Returns (Some err), cmd, g @ [name])"

text \<open>
  What the closure leaves of one flag it visits, as a function of that flag: the statement
  of the closure with \<open>Set\<close> reduced to the flag it finds.
\<close>

definition resolveFlag :: "'v Externals \<Rightarrow> string \<Rightarrow> 'v Flag \<Rightarrow> 'v Flag" where
  "resolveFlag X prefix f =
     (if \<not> Changed f \<and> IsSet X (envName X prefix (Name f))
      then snd (applySet (ValueSet X) f (Sprintf_v (Get X (envName X prefix (Name f)))))
      else f)"

text \<open>A command that is not a builtin, with the given flags.\<close>

definition serveCommand :: "'v Flag list \<Rightarrow> 'v Command" where
  "serveCommand flags = \<lparr>Use = ''serve'', Flags = flags\<rparr>"

text \<open>
  The seven level names of the switch in \<open>ZeroLogPreRunE\<close> with the level each one sets,
  and the first step of that hook as a function of the format read: the console writer for
  \<open>human\<close> and for \<open>auto\<close> on a terminal, nothing otherwise.
\<close>

definition recognizedLevels :: "(string \<times> Level) list" where
  "recognizedLevels =
     [(''trace'', TraceLevel), (''debug'', DebugLevel), (''info'', InfoLevel), (''warn'', WarnLevel),
      (''error'', ErrorLevel), (''fatal'', FatalLevel), (''panic'', PanicLevel)]"

definition applyFormat :: "'v Externals \<Rightarrow> string \<Rightarrow> World \<Rightarrow> World" where
  "applyFormat X format w =
     (if format = ''human'' \<or> (format = ''auto'' \<and> StdoutIsTerminal X)
      then w\<lparr>Logger := ConsoleWriter Stdout\<rparr> else w)"

text \<open>
  The same libraries with the string flag \<open>name\<close> of the command \<open>cmd\<close> reading \<open>val\<close>;
  and a command with the tracing flags, the provider given on the command line.
\<close>

definition withFlagText :: "'v Externals \<Rightarrow> 'v Command \<Rightarrow> string \<Rightarrow> string \<Rightarrow> 'v Externals" where
  "withFlagText X cmd name val =
     X\<lparr>MustGetString := (MustGetString X)(cmd := (MustGetString X cmd)(name \<mapsto> val))\<rparr>"

definition tracedCommand :: "string \<Rightarrow> Value Command" where
  "tracedCommand provider =
     serveCommand
       [given ''otel-provider'' (StringValue provider),
        registered ''otel-jaeger-endpoint'' (StringValue ''http://jaeger:14268/api/traces''),
        registered ''otel-jaeger-service-name'' (StringValue ''svc'')]"

text \<open>
  The error of the default case of the two switches on the certificate and key paths, for
  the server kind named in the message (\<open>gRPC\<close>, \<open>http\<close>) and the flag prefix.
\<close>

definition pairingError :: "string \<Rightarrow> string \<Rightarrow> error" where
  "pairingError server flagPrefix =
     ErrorString (''failed to start '' @ server @ '' server: must provide both --'' @ flagPrefix
                  @ ''-tls-cert-path and --'' @ flagPrefix @ ''-tls-key-path'')"

text \<open>
  A command with the server flags under a prefix: the address \<open>:0\<close>, the two TLS paths and
  the enabled flag. And the instance of the parameters in which the serve call of the gRPC
  server and the serve calls of the HTTP server end with the given errors.
\<close>

definition serverCommand :: "string \<Rightarrow> bool \<Rightarrow> string \<Rightarrow> string \<Rightarrow> Value Command" where
  "serverCommand prefix enabled certPath keyPath =
     serveCommand
       [registered (prefix @ ''-addr'') (StringValue '':0''),
        registered (prefix @ ''-tls-cert-path'') (StringValue certPath),
        registered (prefix @ ''-tls-key-path'') (StringValue keyPath),
        registered (prefix @ ''-enabled'') (BoolValue enabled)]"

definition serveEnds :: "error option \<Rightarrow> error option \<Rightarrow> Value Externals" where
  "serveEnds grpcEnd httpEnd =
     (asciiExternals [])
       \<lparr>Serve := (\<lambda>srv addr. grpcEnd),
        ListenAndServe := (\<lambda>srv. httpEnd),
        ListenAndServeTLS := (\<lambda>srv certPath keyPath. httpEnd)\<rparr>"

section \<open>Properties of CommandStack\<close>

text \<open>
  Three facts about the loop: a prefix of hooks that all return \<open>nil\<close> hands its state to
  the rest of the list; a failing head ends the run; and the result of a list extended by
  one hook at the end.
\<close>

lemma CommandStack_append:
  "CommandStack pre cmd args g = (Returns None, c1, g1) \<Longrightarrow>
   CommandStack (pre @ rest) cmd args g = CommandStack rest c1 args g1"
proof (induction pre arbitrary: cmd g)
  case Nil
  then show ?case by simp
next
  case (Cons f fs)
  obtain r c' g' where st: "f cmd args g = (r, c', g')" by (cases "f cmd args g") auto
  show ?case
  proof (cases r)
    case (Returns eo)
    show ?thesis
    proof (cases eo)
      case None
      with Returns st Cons.prems have "CommandStack fs c' args g' = (Returns None, c1, g1)" by simp
      from Cons.IH[OF this] show ?thesis using st Returns None by simp
    next
      case (Some e)
      with Returns st Cons.prems show ?thesis by simp
    qed
  next
    case Panics
    with st Cons.prems show ?thesis by simp
  qed
qed

lemma CommandStack_first_failure:
  "cmdfn cmd args g = (Returns (Some err), c', g') \<Longrightarrow>
   CommandStack (cmdfn # cmdfns) cmd args g = (Returns (Some err), c', g')"
  by simp

lemma CommandStack_snoc:
  "CommandStack (hs @ [h]) cmd args g =
     (case CommandStack hs cmd args g of
        (Returns None, c, g') \<Rightarrow> h c args g'
      | (Returns (Some err), c, g') \<Rightarrow> (Returns (Some err), c, g')
      | (Panics, c, g') \<Rightarrow> (Panics, c, g'))"
proof (induction hs arbitrary: cmd g)
  case Nil
  show ?case by (cases "h cmd args g") (auto split: outcome.splits option.splits)
next
  case (Cons f fs)
  show ?case by (cases "f cmd args g") (auto simp: Cons.IH split: outcome.splits option.splits)
qed

lemma CommandStack_success_iff:
  "fst (CommandStack hs cmd args g) = Returns None \<longleftrightarrow>
   (\<forall>i<length hs. fst ((hs ! i) (fst (snd (CommandStack (take i hs) cmd args g))) args
                         (snd (snd (CommandStack (take i hs) cmd args g)))) = Returns None)"
proof (induction hs rule: rev_induct)
  case Nil
  show ?case by simp
next
  case (snoc h hs)
  have take_eq: "\<And>i. i \<le> length hs \<Longrightarrow> take i (hs @ [h]) = take i hs" by simp
  show ?case
  proof
    assume ok: "fst (CommandStack (hs @ [h]) cmd args g) = Returns None"
    then have pre: "fst (CommandStack hs cmd args g) = Returns None"
      by (cases "CommandStack hs cmd args g") (auto simp: CommandStack_snoc split: outcome.splits option.splits)
    then have last: "fst (h (fst (snd (CommandStack hs cmd args g))) args (snd (snd (CommandStack hs cmd args g)))) = Returns None"
      using ok by (cases "CommandStack hs cmd args g") (auto simp: CommandStack_snoc split: outcome.splits option.splits)
    show "\<forall>i<length (hs @ [h]). fst (((hs @ [h]) ! i) (fst (snd (CommandStack (take i (hs @ [h])) cmd args g))) args
                         (snd (snd (CommandStack (take i (hs @ [h])) cmd args g)))) = Returns None"
    proof (intro allI impI)
      fix i assume "i < length (hs @ [h])"
      then consider "i < length hs" | "i = length hs" by fastforce
      then show "fst (((hs @ [h]) ! i) (fst (snd (CommandStack (take i (hs @ [h])) cmd args g))) args
                         (snd (snd (CommandStack (take i (hs @ [h])) cmd args g)))) = Returns None"
      proof cases
        case 1
        then show ?thesis using snoc.IH pre by (simp add: nth_append)
      next
        case 2
        then show ?thesis using last by (simp add: nth_append)
      qed
    qed
  next
    assume all: "\<forall>i<length (hs @ [h]). fst (((hs @ [h]) ! i) (fst (snd (CommandStack (take i (hs @ [h])) cmd args g))) args
                         (snd (snd (CommandStack (take i (hs @ [h])) cmd args g)))) = Returns None"
    have "\<forall>i<length hs. fst ((hs ! i) (fst (snd (CommandStack (take i hs) cmd args g))) args
                         (snd (snd (CommandStack (take i hs) cmd args g)))) = Returns None"
    proof (intro allI impI)
      fix i assume i: "i < length hs"
      then have "i < length (hs @ [h])" by simp
      from all[rule_format, OF this] i show "fst ((hs ! i) (fst (snd (CommandStack (take i hs) cmd args g))) args
                         (snd (snd (CommandStack (take i hs) cmd args g)))) = Returns None"
        by (simp add: nth_append)
    qed
    then have pre: "fst (CommandStack hs cmd args g) = Returns None" using snoc.IH by simp
    have "length hs < length (hs @ [h])" by simp
    from all[rule_format, OF this]
    have last: "fst (h (fst (snd (CommandStack hs cmd args g))) args (snd (snd (CommandStack hs cmd args g)))) = Returns None"
      by (simp add: nth_append)
    show "fst (CommandStack (hs @ [h]) cmd args g) = Returns None"
      using pre last by (cases "CommandStack hs cmd args g") (auto simp: CommandStack_snoc split: outcome.splits option.splits)
  qed
qed

text \<open>
  The same facts stated on the hooks themselves, through the states \<open>sts\<close> the run goes
  through: \<open>sts ! 0\<close> is the command and global state at the call, and hook \<open>i\<close>, applied to
  \<open>sts ! i\<close>, returns \<open>nil\<close> and leaves \<open>sts ! Suc i\<close>.
\<close>

lemma CommandStack_trace_success:
  "length sts = Suc (length hs) \<Longrightarrow> sts ! 0 = (cmd, g) \<Longrightarrow>
   (\<forall>i<length hs. (hs ! i) (fst (sts ! i)) args (snd (sts ! i)) = (Returns None, sts ! Suc i)) \<Longrightarrow>
   CommandStack hs cmd args g = (Returns None, sts ! length hs)"
proof (induction hs arbitrary: cmd g sts)
  case Nil
  then show ?case by simp
next
  case (Cons h hs)
  from Cons.prems(1) obtain s0 sts' where sts: "sts = s0 # sts'" and len: "length sts' = Suc (length hs)"
    by (cases sts) auto
  from Cons.prems(2) sts have s0: "s0 = (cmd, g)" by simp
  obtain c1 g1 where s1: "sts' ! 0 = (c1, g1)" by (cases "sts' ! 0") auto
  from Cons.prems(3)[rule_format, of 0] sts s0 s1
  have step: "h cmd args g = (Returns None, c1, g1)" by simp
  have rest: "\<forall>i<length hs. (hs ! i) (fst (sts' ! i)) args (snd (sts' ! i)) = (Returns None, sts' ! Suc i)"
  proof (intro allI impI)
    fix i assume "i < length hs"
    then have "Suc i < length (h # hs)" by simp
    from Cons.prems(3)[rule_format, OF this] sts
    show "(hs ! i) (fst (sts' ! i)) args (snd (sts' ! i)) = (Returns None, sts' ! Suc i)" by simp
  qed
  from Cons.IH[OF len s1 rest] step sts show ?case by simp
qed

lemma CommandStack_trace_failure:
  assumes "k < length hs" and "length sts = Suc k" and "sts ! 0 = (cmd, g)"
    and "\<forall>i<k. (hs ! i) (fst (sts ! i)) args (snd (sts ! i)) = (Returns None, sts ! Suc i)"
    and "(hs ! k) (fst (sts ! k)) args (snd (sts ! k)) = (Returns (Some err), c2, g2)"
  shows "CommandStack hs cmd args g = (Returns (Some err), c2, g2)"
proof -
  have len: "length sts = Suc (length (take k hs))" using assms(1,2) by simp
  have tr: "\<forall>i<length (take k hs).
      ((take k hs) ! i) (fst (sts ! i)) args (snd (sts ! i)) = (Returns None, sts ! Suc i)"
    using assms(1,4) by simp
  from CommandStack_trace_success[OF len assms(3) tr]
  have pre: "CommandStack (take k hs) cmd args g = (Returns None, fst (sts ! k), snd (sts ! k))"
    using assms(1) by simp
  have split: "hs = take k hs @ hs ! k # drop (Suc k) hs"
    using assms(1) by (simp add: id_take_nth_drop)
  have "CommandStack (take k hs @ hs ! k # drop (Suc k) hs) cmd args g
        = CommandStack (hs ! k # drop (Suc k) hs) (fst (sts ! k)) args (snd (sts ! k))"
    using pre by (rule CommandStack_append)
  also have "\<dots> = (Returns (Some err), c2, g2)"
    using assms(5) by (rule CommandStack_first_failure)
  finally show ?thesis using split by simp
qed

lemma CommandStack_success_trace:
  "fst (CommandStack hs cmd args g) = Returns None \<Longrightarrow>
   \<exists>sts. length sts = Suc (length hs) \<and> sts ! 0 = (cmd, g)
     \<and> (\<forall>i<length hs. (hs ! i) (fst (sts ! i)) args (snd (sts ! i)) = (Returns None, sts ! Suc i))
     \<and> CommandStack hs cmd args g = (Returns None, sts ! length hs)"
proof (induction hs arbitrary: cmd g)
  case Nil
  have "length [(cmd, g)] = Suc (length ([] :: ('a, 'b, 'c) CobraRunFunc list)) \<and> [(cmd, g)] ! 0 = (cmd, g)"
    by simp
  then show ?case by (intro exI[of _ "[(cmd, g)]"]) simp
next
  case (Cons h hs)
  obtain r c1 g1 where st: "h cmd args g = (r, c1, g1)" by (cases "h cmd args g") auto
  from Cons.prems st have r: "r = Returns None"
    by (cases r) (auto split: option.splits)
  with Cons.prems st have "fst (CommandStack hs c1 args g1) = Returns None" by simp
  from Cons.IH[OF this] obtain sts where
    l: "length sts = Suc (length hs)" and z: "sts ! 0 = (c1, g1)"
    and t: "\<forall>i<length hs. (hs ! i) (fst (sts ! i)) args (snd (sts ! i)) = (Returns None, sts ! Suc i)"
    and e: "CommandStack hs c1 args g1 = (Returns None, sts ! length hs)" by blast
  let ?sts = "(cmd, g) # sts"
  have 1: "length ?sts = Suc (length (h # hs))" using l by simp
  have 2: "?sts ! 0 = (cmd, g)" by simp
  have 3: "\<forall>i<length (h # hs). ((h # hs) ! i) (fst (?sts ! i)) args (snd (?sts ! i))
             = (Returns None, ?sts ! Suc i)"
  proof (intro allI impI)
    fix i assume i: "i < length (h # hs)"
    show "((h # hs) ! i) (fst (?sts ! i)) args (snd (?sts ! i)) = (Returns None, ?sts ! Suc i)"
    proof (cases i)
      case 0
      then show ?thesis using st r z by simp
    next
      case (Suc j)
      with i have "j < length hs" by simp
      from t[rule_format, OF this] Suc show ?thesis by simp
    qed
  qed
  have 4: "CommandStack (h # hs) cmd args g = (Returns None, ?sts ! length (h # hs))"
    using st r e by simp
  from 1 2 3 4 show ?case by blast
qed

text \<open>
  Claim C3. For every list of hooks, the hook returned by \<open>CommandStack\<close> runs them in list
  order on the same invocation context: a hook that returns \<open>nil\<close> hands the command and the
  global state it left, with the same \<open>args\<close>, to the hooks after it, so that when hook \<open>i\<close>
  takes \<open>sts ! i\<close> to \<open>sts ! Suc i\<close> for every \<open>i\<close>, the result is \<open>nil\<close> with the last state.
  It stops at the first hook that returns an error: when the hooks before \<open>k\<close> succeed along
  \<open>sts\<close> and hook \<open>k\<close> fails, the result is exactly the error and the state of hook \<open>k\<close>,
  whatever hooks follow, so none of them has run. And it returns \<open>nil\<close> exactly when every
  hook of the list returns \<open>nil\<close> on the state left by the hook before it. The last three
  parts say the same of a prefix \<open>pre\<close> of the list in terms of its own run.
\<close>

theorem CommandStack_runs_in_order_fail_fast:
  "(h cmd args g = (Returns None, c1, g1) \<longrightarrow>
      CommandStack (h # rest) cmd args g = CommandStack rest c1 args g1)
   \<and> (h cmd args g = (Returns (Some err), c2, g2) \<longrightarrow>
      CommandStack (h # post) cmd args g = (Returns (Some err), c2, g2))
   \<and> (length sts = Suc (length hs) \<and> sts ! 0 = (cmd, g)
        \<and> (\<forall>i<length hs. (hs ! i) (fst (sts ! i)) args (snd (sts ! i)) = (Returns None, sts ! Suc i))
      \<longrightarrow> CommandStack hs cmd args g = (Returns None, sts ! length hs))
   \<and> (k < length hs \<and> length sts = Suc k \<and> sts ! 0 = (cmd, g)
        \<and> (\<forall>i<k. (hs ! i) (fst (sts ! i)) args (snd (sts ! i)) = (Returns None, sts ! Suc i))
        \<and> (hs ! k) (fst (sts ! k)) args (snd (sts ! k)) = (Returns (Some err), c2, g2)
      \<longrightarrow> CommandStack hs cmd args g = (Returns (Some err), c2, g2))
   \<and> (fst (CommandStack hs cmd args g) = Returns None \<longleftrightarrow>
        (\<exists>tr. length tr = Suc (length hs) \<and> tr ! 0 = (cmd, g)
           \<and> (\<forall>i<length hs. (hs ! i) (fst (tr ! i)) args (snd (tr ! i)) = (Returns None, tr ! Suc i))))
   \<and> (CommandStack pre cmd args g = (Returns None, c1, g1) \<longrightarrow>
      CommandStack (pre @ rest) cmd args g = CommandStack rest c1 args g1)
   \<and> (CommandStack pre cmd args g = (Returns None, c1, g1)
        \<and> h c1 args g1 = (Returns (Some err), c2, g2) \<longrightarrow>
      CommandStack (pre @ h # post) cmd args g = (Returns (Some err), c2, g2))
   \<and> (fst (CommandStack hs cmd args g) = Returns None \<longleftrightarrow>
        (\<forall>i<length hs.
           fst ((hs ! i) (fst (snd (CommandStack (take i hs) cmd args g))) args
                 (snd (snd (CommandStack (take i hs) cmd args g)))) = Returns None))"
proof -
  have 1: "h cmd args g = (Returns None, c1, g1) \<longrightarrow>
      CommandStack (h # rest) cmd args g = CommandStack rest c1 args g1"
    by simp
  have 2: "h cmd args g = (Returns (Some err), c2, g2) \<longrightarrow>
      CommandStack (h # post) cmd args g = (Returns (Some err), c2, g2)"
    by simp
  have 3: "length sts = Suc (length hs) \<and> sts ! 0 = (cmd, g)
        \<and> (\<forall>i<length hs. (hs ! i) (fst (sts ! i)) args (snd (sts ! i)) = (Returns None, sts ! Suc i))
      \<longrightarrow> CommandStack hs cmd args g = (Returns None, sts ! length hs)"
  proof (intro impI, elim conjE)
    assume "length sts = Suc (length hs)" "sts ! 0 = (cmd, g)"
      "\<forall>i<length hs. (hs ! i) (fst (sts ! i)) args (snd (sts ! i)) = (Returns None, sts ! Suc i)"
    then show "CommandStack hs cmd args g = (Returns None, sts ! length hs)"
      by (rule CommandStack_trace_success)
  qed
  have 4: "k < length hs \<and> length sts = Suc k \<and> sts ! 0 = (cmd, g)
        \<and> (\<forall>i<k. (hs ! i) (fst (sts ! i)) args (snd (sts ! i)) = (Returns None, sts ! Suc i))
        \<and> (hs ! k) (fst (sts ! k)) args (snd (sts ! k)) = (Returns (Some err), c2, g2)
      \<longrightarrow> CommandStack hs cmd args g = (Returns (Some err), c2, g2)"
  proof (intro impI, elim conjE)
    assume "k < length hs" "length sts = Suc k" "sts ! 0 = (cmd, g)"
      "\<forall>i<k. (hs ! i) (fst (sts ! i)) args (snd (sts ! i)) = (Returns None, sts ! Suc i)"
      "(hs ! k) (fst (sts ! k)) args (snd (sts ! k)) = (Returns (Some err), c2, g2)"
    then show "CommandStack hs cmd args g = (Returns (Some err), c2, g2)"
      by (rule CommandStack_trace_failure)
  qed
  have 5: "fst (CommandStack hs cmd args g) = Returns None \<longleftrightarrow>
        (\<exists>tr. length tr = Suc (length hs) \<and> tr ! 0 = (cmd, g)
           \<and> (\<forall>i<length hs. (hs ! i) (fst (tr ! i)) args (snd (tr ! i)) = (Returns None, tr ! Suc i)))"
  proof
    assume "fst (CommandStack hs cmd args g) = Returns None"
    from CommandStack_success_trace[OF this]
    show "\<exists>tr. length tr = Suc (length hs) \<and> tr ! 0 = (cmd, g)
           \<and> (\<forall>i<length hs. (hs ! i) (fst (tr ! i)) args (snd (tr ! i)) = (Returns None, tr ! Suc i))"
      by blast
  next
    assume "\<exists>tr. length tr = Suc (length hs) \<and> tr ! 0 = (cmd, g)
           \<and> (\<forall>i<length hs. (hs ! i) (fst (tr ! i)) args (snd (tr ! i)) = (Returns None, tr ! Suc i))"
    then obtain tr where "length tr = Suc (length hs)" "tr ! 0 = (cmd, g)"
      "\<forall>i<length hs. (hs ! i) (fst (tr ! i)) args (snd (tr ! i)) = (Returns None, tr ! Suc i)"
      by blast
    from CommandStack_trace_success[OF this]
    show "fst (CommandStack hs cmd args g) = Returns None" by simp
  qed
  have 6: "CommandStack pre cmd args g = (Returns None, c1, g1) \<longrightarrow>
      CommandStack (pre @ rest) cmd args g = CommandStack rest c1 args g1"
    by (simp add: CommandStack_append)
  have 7: "CommandStack pre cmd args g = (Returns None, c1, g1)
        \<and> h c1 args g1 = (Returns (Some err), c2, g2) \<longrightarrow>
      CommandStack (pre @ h # post) cmd args g = (Returns (Some err), c2, g2)"
  proof
    assume a: "CommandStack pre cmd args g = (Returns None, c1, g1)
             \<and> h c1 args g1 = (Returns (Some err), c2, g2)"
    then have "CommandStack (pre @ h # post) cmd args g = CommandStack (h # post) c1 args g1"
      by (simp add: CommandStack_append)
    also have "\<dots> = (Returns (Some err), c2, g2)"
      using a by (simp add: CommandStack_first_failure)
    finally show "CommandStack (pre @ h # post) cmd args g = (Returns (Some err), c2, g2)" .
  qed
  have 8: "fst (CommandStack hs cmd args g) = Returns None \<longleftrightarrow>
        (\<forall>i<length hs.
           fst ((hs ! i) (fst (snd (CommandStack (take i hs) cmd args g))) args
                 (snd (snd (CommandStack (take i hs) cmd args g)))) = Returns None)"
    by (rule CommandStack_success_iff)
  show ?thesis
    by (rule conjI[OF 1 conjI[OF 2 conjI[OF 3 conjI[OF 4 conjI[OF 5 conjI[OF 6 conjI[OF 7 8]]]]]]])
qed


theorem CommandStack_runs_in_order_fail_fast_witness:
  "(writingHook ''A'' :: (string list, string list, error) CobraRunFunc) [] [''x''] []
     = (Returns None, [''A''], [''A''])
   \<and> requiringHook ''A'' ''B'' (ErrorString ''stale'') [''A''] [''x''] [''A'']
     = (Returns None, [''A''], [''A'', ''B''])
   \<and> recordingHook ''C'' (Some (ErrorString ''C failed'')) [''A''] [''x''] [''A'', ''B'']
     = (Returns (Some (ErrorString ''C failed'')), [''A''], [''A'', ''B'', ''C''])
   \<and> CommandStack
        [writingHook ''A'', requiringHook ''A'' ''B'' (ErrorString ''stale''),
         recordingHook ''C'' (Some (ErrorString ''C failed'')), writingHook ''D'']
        [] [''x''] []
     = (Returns (Some (ErrorString ''C failed'')), [''A''], [''A'', ''B'', ''C''])
   \<and> requiringHook ''A'' ''B'' (ErrorString ''stale'') [] [''x''] [''A'']
     = (Returns (Some (ErrorString ''stale'')), [], [''A'', ''B''])"
proof -
  let ?A = "writingHook ''A'' :: (string list, string list, error) CobraRunFunc"
  let ?B = "requiringHook ''A'' ''B'' (ErrorString ''stale'')"
  let ?C = "recordingHook ''C'' (Some (ErrorString ''C failed''))
            :: (string list, string list, error) CobraRunFunc"
  let ?D = "writingHook ''D'' :: (string list, string list, error) CobraRunFunc"
  let ?hs = "[?A, ?B, ?C, ?D]"
  let ?sts = "[([], []), ([''A''], [''A'']), ([''A''], [''A'', ''B''])] :: (string list \<times> string list) list"
  have a: "?A [] [''x''] [] = (Returns None, [''A''], [''A''])"
    by (simp add: writingHook_def)
  have b: "?B [''A''] [''x''] [''A''] = (Returns None, [''A''], [''A'', ''B''])"
    by (simp add: requiringHook_def)
  have c: "?C [''A''] [''x''] [''A'', ''B'']
           = (Returns (Some (ErrorString ''C failed'')), [''A''], [''A'', ''B'', ''C''])"
    by (simp add: recordingHook_def)
  have s: "?B [] [''x''] [''A''] = (Returns (Some (ErrorString ''stale'')), [], [''A'', ''B''])"
    by (simp add: requiringHook_def)
  have k: "(2::nat) < length ?hs" by simp
  have l: "length ?sts = Suc 2" by simp
  have z: "?sts ! 0 = ([], [])" by simp
  have t: "\<forall>i<2. (?hs ! i) (fst (?sts ! i)) [''x''] (snd (?sts ! i)) = (Returns None, ?sts ! Suc i)"
  proof (intro allI impI)
    fix i :: nat assume "i < 2"
    then consider "i = 0" | "i = Suc 0" by linarith
    then show "(?hs ! i) (fst (?sts ! i)) [''x''] (snd (?sts ! i)) = (Returns None, ?sts ! Suc i)"
    proof cases
      case 1
      then show ?thesis using a by simp
    next
      case 2
      then show ?thesis using b by simp
    qed
  qed
  have f: "(?hs ! 2) (fst (?sts ! 2)) [''x''] (snd (?sts ! 2))
           = (Returns (Some (ErrorString ''C failed'')), [''A''], [''A'', ''B'', ''C''])"
    using c by (simp add: numeral_2_eq_2)
  have hyp: "2 < length ?hs \<and> length ?sts = Suc 2 \<and> ?sts ! 0 = ([], [])
        \<and> (\<forall>i<2. (?hs ! i) (fst (?sts ! i)) [''x''] (snd (?sts ! i)) = (Returns None, ?sts ! Suc i))
        \<and> (?hs ! 2) (fst (?sts ! 2)) [''x''] (snd (?sts ! 2))
           = (Returns (Some (ErrorString ''C failed'')), [''A''], [''A'', ''B'', ''C''])"
    using k l z t f by (intro conjI)
  note T = CommandStack_runs_in_order_fail_fast
         [where hs = ?hs and k = 2 and sts = ?sts and cmd = "[]" and g = "[]" and args = "[''x'']"
            and err = "ErrorString ''C failed''" and ?c2.0 = "[''A'']" and ?g2.0 = "[''A'', ''B'', ''C'']",
          THEN conjunct2, THEN conjunct2, THEN conjunct2, THEN conjunct1]
  from T hyp
  have r: "CommandStack ?hs [] [''x''] []
           = (Returns (Some (ErrorString ''C failed'')), [''A''], [''A'', ''B'', ''C''])"
    by (rule mp)
  show ?thesis
    by (rule conjI[OF a conjI[OF b conjI[OF c conjI[OF r s]]]])
qed

section \<open>Properties of SyncViperPreRunE\<close>

text \<open>
  \<open>Set\<close> keeps the names and changes the flag found under the name alone; so does the
  closure; and \<open>VisitAll\<close> over distinct names leaves every flag as its own visit leaves it.
\<close>

lemma FlagSet_Set_names: "map Name (snd (FlagSet_Set vset fs n val)) = map Name fs"
  by (induction fs) (auto simp: applySet_def split: prod.splits option.splits)

lemma Lookup_FlagSet_Set:
  "Lookup (snd (FlagSet_Set vset fs n val)) m =
     (if m = n then map_option (\<lambda>f. snd (applySet vset f val)) (Lookup fs n) else Lookup fs m)"
proof (induction fs)
  case Nil
  show ?case by simp
next
  case (Cons f fs)
  have nm: "Name (snd (applySet vset f val)) = Name f"
    by (simp add: applySet_def split: prod.splits option.splits)
  show ?case
  proof (cases "Name f = n")
    case True
    then show ?thesis using nm by (auto split: prod.splits)
  next
    case False
    then show ?thesis using Cons.IH by (auto split: prod.splits)
  qed
qed

lemma Lookup_Name: "Lookup fs n = Some f \<Longrightarrow> Name f = n"
  by (induction fs) (auto split: if_splits)

lemma Lookup_None_iff: "Lookup fs n = None \<longleftrightarrow> n \<notin> set (map Name fs)"
  by (induction fs) auto

lemma Lookup_distinct: "distinct (map Name fs) \<Longrightarrow> f \<in> set fs \<Longrightarrow> Lookup fs (Name f) = Some f"
  by (induction fs) (auto simp: rev_image_eqI)

lemma syncFlag_names: "map Name (syncFlag X prefix n fs) = map Name fs"
  by (simp add: syncFlag_def Let_def FlagSet_Set_names split: option.splits)

lemma Lookup_syncFlag:
  "Lookup (syncFlag X prefix n fs) m =
     (if m = n then map_option (resolveFlag X prefix) (Lookup fs n) else Lookup fs m)"
proof (cases "Lookup fs n")
  case None
  then show ?thesis by (simp add: syncFlag_def)
next
  case (Some f)
  then have "Name f = n" by (rule Lookup_Name)
  with Some show ?thesis
    by (simp add: syncFlag_def Let_def resolveFlag_def Lookup_FlagSet_Set)
qed

lemma Lookup_fold_syncFlag:
  "distinct ns \<Longrightarrow>
   Lookup (fold (syncFlag X prefix) ns fs) m =
     (if m \<in> set ns then map_option (resolveFlag X prefix) (Lookup fs m) else Lookup fs m)"
proof (induction ns arbitrary: fs)
  case Nil
  show ?case by simp
next
  case (Cons n ns)
  then have d: "distinct ns" and nn: "n \<notin> set ns" by simp_all
  show ?case using Cons.IH[OF d, of "syncFlag X prefix n fs"] nn
    by (auto simp: Lookup_syncFlag)
qed

lemma fold_syncFlag_names: "map Name (fold (syncFlag X prefix) ns fs) = map Name fs"
  by (induction ns arbitrary: fs) (simp_all add: syncFlag_names)

lemma Lookup_VisitAll:
  assumes "distinct (map Name fs)" "f \<in> set fs"
  shows "Lookup (VisitAll fs (syncFlag X prefix)) (Name f) = Some (resolveFlag X prefix f)"
  using assms by (simp add: VisitAll_def Lookup_fold_syncFlag Lookup_distinct)

lemma SyncViperPreRunE_Lookup:
  assumes "distinct (map Name (Flags cmd))" and "f \<in> set (Flags cmd)"
    and "\<not> IsBuiltinCommand cmd"
    and "SyncViperPreRunE X prefix cmd args w = (r, cmd', w')"
  shows "Lookup (Flags cmd') (Name f)
         = Some (resolveFlag X (ReplaceAll (ToUpper X prefix) (CHR ''-'') (CHR ''_'')) f)"
proof -
  from assms(3,4)
  have "Flags cmd' = VisitAll (Flags cmd)
          (syncFlag X (ReplaceAll (ToUpper X prefix) (CHR ''-'') (CHR ''_'')))"
    by (auto simp: SyncViperPreRunE_def Let_def)
  with assms(1,2) show ?thesis by (simp add: Lookup_VisitAll)
qed

lemma SyncViperPreRunE_builtin:
  "IsBuiltinCommand cmd \<Longrightarrow> SyncViperPreRunE X prefix cmd args w = (Returns None, cmd, w)"
  by (simp add: SyncViperPreRunE_def)

lemma SyncViperPreRunE_names:
  "SyncViperPreRunE X prefix cmd args w = (r, cmd', w') \<Longrightarrow>
   map Name (Flags cmd') = map Name (Flags cmd)"
  by (cases "IsBuiltinCommand cmd")
     (auto simp: SyncViperPreRunE_def Let_def VisitAll_def fold_syncFlag_names)

text \<open>
  Claim C1. For every flag \<open>f\<close> registered on a command, the hook returned by
  \<open>SyncViperPreRunE\<close> keeps the set of flag names, and applies the environment variable
  \<open>key\<close> of the flag only when the flag was not set on the invocation: a flag with
  \<open>Changed\<close> is found unchanged after the hook, also when its variable is present; a flag
  whose variable is absent from the environment is found unchanged; a flag found different
  was not changed and has a non-empty variable; and a flag that was not changed and has a
  non-empty variable is found as \<open>Set\<close> leaves it with the text of the variable.
\<close>

theorem SyncViperPreRunE_explicit_beats_env:
  assumes "distinct (map Name (Flags cmd))"
    and "f \<in> set (Flags cmd)"
    and "SyncViperPreRunE X prefix cmd args w = (r, cmd', w')"
    and "key = envName X (ReplaceAll (ToUpper X prefix) (CHR ''-'') (CHR ''_'')) (Name f)"
  shows "map Name (Flags cmd') = map Name (Flags cmd)
     \<and> (Changed f \<longrightarrow> Lookup (Flags cmd') (Name f) = Some f)
     \<and> (LookupEnv X key = None \<longrightarrow> Lookup (Flags cmd') (Name f) = Some f)
     \<and> (Lookup (Flags cmd') (Name f) \<noteq> Some f \<longrightarrow>
          \<not> Changed f \<and> \<not> IsBuiltinCommand cmd \<and> (\<exists>val. LookupEnv X key = Some val \<and> val \<noteq> []))
     \<and> (\<not> IsBuiltinCommand cmd \<and> \<not> Changed f \<and> LookupEnv X key = Some val \<and> val \<noteq> [] \<longrightarrow>
          Lookup (Flags cmd') (Name f) = Some (snd (applySet (ValueSet X) f val)))"
proof (cases "IsBuiltinCommand cmd")
  case True
  with assms(3) have "cmd' = cmd" by (simp add: SyncViperPreRunE_builtin)
  with True assms(1,2) show ?thesis by (simp add: Lookup_distinct)
next
  case False
  define p where "p = ReplaceAll (ToUpper X prefix) (CHR ''-'') (CHR ''_'')"
  have names: "map Name (Flags cmd') = map Name (Flags cmd)"
    using assms(3) by (rule SyncViperPreRunE_names)
  have lk: "Lookup (Flags cmd') (Name f) = Some (resolveFlag X p f)"
    unfolding p_def using assms(1,2) False assms(3) by (rule SyncViperPreRunE_Lookup)
  have k: "key = envName X p (Name f)" using assms(4) by (simp add: p_def)
  have c2: "Changed f \<longrightarrow> Lookup (Flags cmd') (Name f) = Some f"
    by (simp add: lk resolveFlag_def)
  have c3: "LookupEnv X key = None \<longrightarrow> Lookup (Flags cmd') (Name f) = Some f"
    by (simp add: lk resolveFlag_def IsSet_def getEnv_def k)
  have c4: "Lookup (Flags cmd') (Name f) \<noteq> Some f \<longrightarrow>
          \<not> Changed f \<and> \<not> IsBuiltinCommand cmd \<and> (\<exists>val. LookupEnv X key = Some val \<and> val \<noteq> [])"
  proof
    assume "Lookup (Flags cmd') (Name f) \<noteq> Some f"
    then have ne: "resolveFlag X p f \<noteq> f" by (simp add: lk)
    then have 1: "\<not> Changed f" and 2: "IsSet X key"
      by (auto simp: resolveFlag_def k split: if_splits)
    from 2 have "\<exists>val. LookupEnv X key = Some val \<and> val \<noteq> []"
      by (cases "LookupEnv X key") (auto simp: IsSet_def getEnv_def split: if_splits)
    with 1 False show "\<not> Changed f \<and> \<not> IsBuiltinCommand cmd \<and> (\<exists>val. LookupEnv X key = Some val \<and> val \<noteq> [])"
      by blast
  qed
  have c5: "\<not> IsBuiltinCommand cmd \<and> \<not> Changed f \<and> LookupEnv X key = Some val \<and> val \<noteq> [] \<longrightarrow>
          Lookup (Flags cmd') (Name f) = Some (snd (applySet (ValueSet X) f val))"
    by (simp add: lk resolveFlag_def IsSet_def Get_def getEnv_def Sprintf_v_def k)
  from names c2 c3 c4 c5 show ?thesis by blast
qed

theorem SyncViperPreRunE_explicit_beats_env_witness:
  "distinct (map Name (Flags (serveCommand
      [given ''log-level'' (StringValue ''warn''), registered ''log-format'' (StringValue ''auto''),
       registered ''grpc-addr'' (StringValue '':50051'')])))
   \<and> given ''log-level'' (StringValue ''warn'') \<in> set (Flags (serveCommand
      [given ''log-level'' (StringValue ''warn''), registered ''log-format'' (StringValue ''auto''),
       registered ''grpc-addr'' (StringValue '':50051'')]))
   \<and> SyncViperPreRunE (asciiExternals [(''APP_LOG_LEVEL'', ''debug''), (''APP_LOG_FORMAT'', ''json'')])
        ''app'' (serveCommand
      [given ''log-level'' (StringValue ''warn''), registered ''log-format'' (StringValue ''auto''),
       registered ''grpc-addr'' (StringValue '':50051'')]) [] freshWorld
      = (Returns None,
         serveCommand
           [given ''log-level'' (StringValue ''warn''), given ''log-format'' (StringValue ''json''),
            registered ''grpc-addr'' (StringValue '':50051'')],
         freshWorld\<lparr>EnvPrefix := ''APP''\<rparr>)
   \<and> Lookup (Flags (serveCommand
           [given ''log-level'' (StringValue ''warn''), given ''log-format'' (StringValue ''json''),
            registered ''grpc-addr'' (StringValue '':50051'')])) ''log-level''
      = Some (given ''log-level'' (StringValue ''warn''))"
proof -
  let ?X = "asciiExternals [(''APP_LOG_LEVEL'', ''debug''), (''APP_LOG_FORMAT'', ''json'')]"
  let ?cmd = "serveCommand
      [given ''log-level'' (StringValue ''warn''), registered ''log-format'' (StringValue ''auto''),
       registered ''grpc-addr'' (StringValue '':50051'')]"
  let ?cmd' = "serveCommand
           [given ''log-level'' (StringValue ''warn''), given ''log-format'' (StringValue ''json''),
            registered ''grpc-addr'' (StringValue '':50051'')]"
  let ?f = "given ''log-level'' (StringValue ''warn'')"
  have h1: "distinct (map Name (Flags ?cmd))"
    by code_simp
  have h2: "?f \<in> set (Flags ?cmd)"
    by (simp add: serveCommand_def)
  have h3: "SyncViperPreRunE ?X ''app'' ?cmd [] freshWorld
            = (Returns None, ?cmd', freshWorld\<lparr>EnvPrefix := ''APP''\<rparr>)"
    by code_simp
  have h4: "Changed ?f" by (simp add: given_def)
  have n: "Name ?f = ''log-level''" by (simp add: given_def)
  from SyncViperPreRunE_explicit_beats_env [OF h1 h2 h3 refl] h4
  have "Lookup (Flags ?cmd') (Name ?f) = Some ?f" by blast
  with n have "Lookup (Flags ?cmd') ''log-level'' = Some ?f" by simp
  with h1 h2 h3 show ?thesis by blast
qed

text \<open>
  Claim C4, as the code has it. The hook returned by \<open>SyncViperPreRunE\<close> returns \<open>nil\<close> on
  every input: no error for a missing environment variable, and none either when the text
  of the variable cannot be coerced, since the error of \<open>Set\<close> is dropped. The flag whose
  \<open>Set\<close> failed is then found with the value the failed \<open>Set\<close> left and still not marked
  as changed.
\<close>

theorem SyncViperPreRunE_drops_coercion_error:
  assumes "distinct (map Name (Flags cmd))"
    and "f \<in> set (Flags cmd)"
    and "SyncViperPreRunE X prefix cmd args w = (r, cmd', w')"
    and "key = envName X (ReplaceAll (ToUpper X prefix) (CHR ''-'') (CHR ''_'')) (Name f)"
  shows "r = Returns None
     \<and> (\<not> IsBuiltinCommand cmd \<and> \<not> Changed f \<and> LookupEnv X key = Some val \<and> val \<noteq> []
          \<and> ValueSet X (Value f) val = (Some err, v') \<longrightarrow>
        Lookup (Flags cmd') (Name f) = Some (f\<lparr>Value := v'\<rparr>))"
proof (intro conjI impI)
  from assms(3) show "r = Returns None"
    by (cases "IsBuiltinCommand cmd") (auto simp: SyncViperPreRunE_def Let_def)
next
  assume a: "\<not> IsBuiltinCommand cmd \<and> \<not> Changed f \<and> LookupEnv X key = Some val \<and> val \<noteq> []
          \<and> ValueSet X (Value f) val = (Some err, v')"
  define p where "p = ReplaceAll (ToUpper X prefix) (CHR ''-'') (CHR ''_'')"
  have k: "key = envName X p (Name f)" using assms(4) by (simp add: p_def)
  from a have nb: "\<not> IsBuiltinCommand cmd" by simp
  have lk: "Lookup (Flags cmd') (Name f) = Some (resolveFlag X p f)"
    unfolding p_def using assms(1,2) nb assms(3) by (rule SyncViperPreRunE_Lookup)
  from a have "resolveFlag X p f = f\<lparr>Value := v'\<rparr>"
    by (simp add: resolveFlag_def IsSet_def Get_def getEnv_def Sprintf_v_def k applySet_def)
  with lk show "Lookup (Flags cmd') (Name f) = Some (f\<lparr>Value := v'\<rparr>)" by simp
qed

theorem SyncViperPreRunE_drops_coercion_error_witness:
  "distinct (map Name (Flags (serveCommand
      [registered ''grpc-enabled'' (BoolValue False), registered ''log-level'' (StringValue ''info'')])))
   \<and> registered ''grpc-enabled'' (BoolValue False) \<in> set (Flags (serveCommand
      [registered ''grpc-enabled'' (BoolValue False), registered ''log-level'' (StringValue ''info'')]))
   \<and> LookupEnv (asciiExternals [(''APP_GRPC_ENABLED'', ''maybe'')]) ''APP_GRPC_ENABLED'' = Some ''maybe''
   \<and> ValueSet (asciiExternals [(''APP_GRPC_ENABLED'', ''maybe'')]) (BoolValue False) ''maybe''
      = (Some (ErrorString ''strconv.ParseBool: parsing maybe: invalid syntax''), BoolValue False)
   \<and> SyncViperPreRunE (asciiExternals [(''APP_GRPC_ENABLED'', ''maybe'')]) ''app''
        (serveCommand
          [registered ''grpc-enabled'' (BoolValue False), registered ''log-level'' (StringValue ''info'')])
        [] freshWorld
      = (Returns None,
         serveCommand
          [registered ''grpc-enabled'' (BoolValue False), registered ''log-level'' (StringValue ''info'')],
         freshWorld\<lparr>EnvPrefix := ''APP''\<rparr>)
   \<and> Lookup (Flags (serveCommand
          [registered ''grpc-enabled'' (BoolValue False), registered ''log-level'' (StringValue ''info'')]))
        ''grpc-enabled''
      = Some ((registered ''grpc-enabled'' (BoolValue False))\<lparr>Value := BoolValue False\<rparr>)"
proof -
  let ?X = "asciiExternals [(''APP_GRPC_ENABLED'', ''maybe'')]"
  let ?f = "registered ''grpc-enabled'' (BoolValue False)"
  let ?cmd = "serveCommand [?f, registered ''log-level'' (StringValue ''info'')]"
  let ?cmd' = "serveCommand
          [registered ''grpc-enabled'' (BoolValue False), registered ''log-level'' (StringValue ''info'')]"
  let ?err = "ErrorString ''strconv.ParseBool: parsing maybe: invalid syntax''"
  have h1: "distinct (map Name (Flags ?cmd))" by code_simp
  have h2: "?f \<in> set (Flags ?cmd)" by (simp add: serveCommand_def)
  have h3: "SyncViperPreRunE ?X ''app'' ?cmd [] freshWorld
            = (Returns None, ?cmd', freshWorld\<lparr>EnvPrefix := ''APP''\<rparr>)"
    by code_simp
  have k: "envName ?X (ReplaceAll (ToUpper ?X ''app'') (CHR ''-'') (CHR ''_'')) (Name ?f)
           = ''APP_GRPC_ENABLED''" by code_simp
  have nb: "\<not> IsBuiltinCommand ?cmd" by code_simp
  have nc: "\<not> Changed ?f" by (simp add: registered_def)
  have e: "LookupEnv ?X ''APP_GRPC_ENABLED'' = Some ''maybe''" by code_simp
  have ne: "''maybe'' \<noteq> ([] :: string)" by simp
  have v: "ValueSet ?X (Value ?f) ''maybe'' = (Some ?err, BoolValue False)" by code_simp
  have v': "ValueSet ?X (BoolValue False) ''maybe'' = (Some ?err, BoolValue False)" by code_simp
  have n: "Name ?f = ''grpc-enabled''" by (simp add: registered_def)
  from SyncViperPreRunE_drops_coercion_error [OF h1 h2 h3 k [symmetric], of "''maybe''" ?err "BoolValue False"]
    nb nc e ne v
  have "Lookup (Flags ?cmd') (Name ?f) = Some (?f\<lparr>Value := BoolValue False\<rparr>)" by blast
  with n have "Lookup (Flags ?cmd') ''grpc-enabled'' = Some (?f\<lparr>Value := BoolValue False\<rparr>)" by simp
  with h1 h2 h3 e v' show ?thesis by blast
qed

text \<open>
  The claim as stated fails: the variable \<open>APP_GRPC_ENABLED\<close> holds \<open>maybe\<close>, which
  \<open>strconv.ParseBool\<close> rejects, and the hook returns \<open>nil\<close>.
\<close>

theorem SyncViperPreRunE_coercion_error_counterexample:
  "fst (pflagValueSet (BoolValue False) ''maybe'') \<noteq> None
   \<and> SyncViperPreRunE (asciiExternals [(''APP_GRPC_ENABLED'', ''maybe'')]) ''app''
        (serveCommand [registered ''grpc-enabled'' (BoolValue False)]) [] freshWorld
      = (Returns None, serveCommand [registered ''grpc-enabled'' (BoolValue False)],
         freshWorld\<lparr>EnvPrefix := ''APP''\<rparr>)"
  by code_simp

section \<open>Properties of ZeroLogPreRunE and OpenTelemetryPreRunE\<close>

text \<open>
  The result of \<open>ZeroLogPreRunE\<close> on a command that is not a builtin and has both flags:
  the format is applied, then the lower-cased level decides.
\<close>

lemma ZeroLogPreRunE_result:
  assumes "\<not> IsBuiltinCommand cmd"
    and "MustGetString X cmd (DefaultEmpty flagPrefix ''log'' @ ''-format'') = Some format"
    and "MustGetString X cmd (DefaultEmpty flagPrefix ''log'' @ ''-level'') = Some lv"
  shows "ZeroLogPreRunE X flagPrefix prerunLevel cmd args w =
     (case map_of recognizedLevels (ToLower X lv) of
        None \<Rightarrow> (Returns (Some (ErrorString (''unknown log level: '' @ ToLower X lv))), cmd,
                  applyFormat X format w)
      | Some l \<Rightarrow> (Returns None, cmd,
                   logEvent prerunLevel [(''new level'', ToLower X lv)] ''set log level''
                     ((applyFormat X format w)\<lparr>GlobalLevel := l\<rparr>)))"
  using assms
  by (simp add: ZeroLogPreRunE_def Let_def recognizedLevels_def applyFormat_def SetGlobalLevel_def)

lemma recognized_None: "map_of recognizedLevels s = None \<longleftrightarrow> s \<notin> set (map fst recognizedLevels)"
  by (simp add: map_of_eq_None_iff)

text \<open>
  Claim C5, as the code has it. For every level string, the hook returned by
  \<open>ZeroLogPreRunE\<close> succeeds and sets the process-wide minimum severity when the level,
  lower-cased, is one of trace, debug, info, warn, error, fatal, panic. For any other value
  it fails with the error \<open>unknown log level\<close>, and leaves the global level and the logged
  events as they were; the rest of the state is what the format selection made of it, so
  all of the prior state is kept only when the format did not select the console writer.
\<close>

theorem ZeroLogPreRunE_level:
  assumes "\<not> IsBuiltinCommand cmd"
    and "MustGetString X cmd (DefaultEmpty flagPrefix ''log'' @ ''-format'') = Some format"
    and "MustGetString X cmd (DefaultEmpty flagPrefix ''log'' @ ''-level'') = Some lv"
    and "ZeroLogPreRunE X flagPrefix prerunLevel cmd args w = (r, cmd', w')"
  shows "(map_of recognizedLevels (ToLower X lv) = Some l \<longrightarrow>
            r = Returns None \<and> GlobalLevel w' = l)
       \<and> (ToLower X lv \<notin> set (map fst recognizedLevels) \<longrightarrow>
            r = Returns (Some (ErrorString (''unknown log level: '' @ ToLower X lv)))
            \<and> GlobalLevel w' = GlobalLevel w \<and> Logged w' = Logged w
            \<and> w' = applyFormat X format w
            \<and> (\<not> (format = ''human'' \<or> (format = ''auto'' \<and> StdoutIsTerminal X)) \<longrightarrow> w' = w))"
proof (intro conjI impI)
  assume a: "map_of recognizedLevels (ToLower X lv) = Some l"
  from assms(4) a show "r = Returns None"
    by (simp add: ZeroLogPreRunE_result[OF assms(1-3)])
  from assms(4) a show "GlobalLevel w' = l"
    by (auto simp: ZeroLogPreRunE_result[OF assms(1-3)] logEvent_def)
next
  assume "ToLower X lv \<notin> set (map fst recognizedLevels)"
  then have n: "map_of recognizedLevels (ToLower X lv) = None" by (simp add: recognized_None)
  from assms(4) n have w': "w' = applyFormat X format w"
    and r: "r = Returns (Some (ErrorString (''unknown log level: '' @ ToLower X lv)))"
    by (auto simp: ZeroLogPreRunE_result[OF assms(1-3)])
  show "r = Returns (Some (ErrorString (''unknown log level: '' @ ToLower X lv)))" by (rule r)
  show "w' = applyFormat X format w" by (rule w')
  show "GlobalLevel w' = GlobalLevel w" by (simp add: w' applyFormat_def)
  show "Logged w' = Logged w" by (simp add: w' applyFormat_def)
  assume "\<not> (format = ''human'' \<or> (format = ''auto'' \<and> StdoutIsTerminal X))"
  then show "w' = w" by (auto simp: w' applyFormat_def)
qed

theorem ZeroLogPreRunE_level_witness:
  "\<not> IsBuiltinCommand (serveCommand
       [registered ''log-format'' (StringValue ''json''), given ''log-level'' (StringValue ''warn'')])
   \<and> MustGetString (asciiExternals []) (serveCommand
       [registered ''log-format'' (StringValue ''json''), given ''log-level'' (StringValue ''warn'')])
       (DefaultEmpty [] ''log'' @ ''-format'') = Some ''json''
   \<and> MustGetString (asciiExternals []) (serveCommand
       [registered ''log-format'' (StringValue ''json''), given ''log-level'' (StringValue ''warn'')])
       (DefaultEmpty [] ''log'' @ ''-level'') = Some ''warn''
   \<and> map_of recognizedLevels (ToLower (asciiExternals []) ''warn'') = Some WarnLevel
   \<and> ZeroLogPreRunE (asciiExternals []) [] DebugLevel (serveCommand
       [registered ''log-format'' (StringValue ''json''), given ''log-level'' (StringValue ''warn'')])
       [] freshWorld
      = (Returns None,
         serveCommand
           [registered ''log-format'' (StringValue ''json''), given ''log-level'' (StringValue ''warn'')],
         freshWorld\<lparr>GlobalLevel := WarnLevel,
                     Logged := [(DebugLevel, [(''new level'', ''warn'')], ''set log level'')]\<rparr>)
   \<and> GlobalLevel (freshWorld\<lparr>GlobalLevel := WarnLevel,
                     Logged := [(DebugLevel, [(''new level'', ''warn'')], ''set log level'')]\<rparr>)
      = WarnLevel"
proof -
  let ?X = "asciiExternals []"
  let ?cmd = "serveCommand
       [registered ''log-format'' (StringValue ''json''), given ''log-level'' (StringValue ''warn'')]"
  let ?w' = "freshWorld\<lparr>GlobalLevel := WarnLevel,
                     Logged := [(DebugLevel, [(''new level'', ''warn'')], ''set log level'')]\<rparr>"
  have h1: "\<not> IsBuiltinCommand ?cmd" by code_simp
  have h2: "MustGetString ?X ?cmd (DefaultEmpty [] ''log'' @ ''-format'') = Some ''json''" by code_simp
  have h3: "MustGetString ?X ?cmd (DefaultEmpty [] ''log'' @ ''-level'') = Some ''warn''" by code_simp
  have h4: "ZeroLogPreRunE ?X [] DebugLevel ?cmd [] freshWorld = (Returns None, ?cmd, ?w')" by code_simp
  have h5: "map_of recognizedLevels (ToLower ?X ''warn'') = Some WarnLevel" by code_simp
  from ZeroLogPreRunE_level [OF h1 h2 h3 h4, of WarnLevel] h5
  have "GlobalLevel ?w' = WarnLevel" by blast
  with h1 h2 h3 h4 h5 show ?thesis by blast
qed

text \<open>
  The claim as stated fails: with the format \<open>human\<close> and the level \<open>bogus\<close> the hook fails,
  and the global logger has already been given the console writer.
\<close>

theorem ZeroLogPreRunE_level_counterexample:
  "ZeroLogPreRunE (asciiExternals []) ''log'' InfoLevel (serveCommand
       [given ''log-format'' (StringValue ''human''), given ''log-level'' (StringValue ''bogus'')])
       [] freshWorld
     = (Returns (Some (ErrorString ''unknown log level: bogus'')),
        serveCommand
          [given ''log-format'' (StringValue ''human''), given ''log-level'' (StringValue ''bogus'')],
        freshWorld\<lparr>Logger := ConsoleWriter Stdout\<rparr>)
   \<and> Logger (freshWorld\<lparr>Logger := ConsoleWriter Stdout\<rparr>) \<noteq> Logger freshWorld"
  by code_simp

text \<open>
  Claim C6, as the code has it. For every log format outside auto, human, json the hook
  returned by \<open>ZeroLogPreRunE\<close> raises no error on account of the format: it leaves the
  global logger's writer as it was and goes on to the level. It succeeds and sets the level
  when the level is recognized, and fails with \<open>unknown log level\<close>, the whole state
  unchanged, when it is not.
\<close>

theorem ZeroLogPreRunE_format_not_checked:
  assumes "\<not> IsBuiltinCommand cmd"
    and "MustGetString X cmd (DefaultEmpty flagPrefix ''log'' @ ''-format'') = Some format"
    and "format \<notin> set [''auto'', ''human'', ''json'']"
    and "MustGetString X cmd (DefaultEmpty flagPrefix ''log'' @ ''-level'') = Some lv"
  shows "(map_of recognizedLevels (ToLower X lv) = Some l \<longrightarrow>
            ZeroLogPreRunE X flagPrefix prerunLevel cmd args w
            = (Returns None, cmd,
               logEvent prerunLevel [(''new level'', ToLower X lv)] ''set log level''
                 (w\<lparr>GlobalLevel := l\<rparr>)))
       \<and> (ToLower X lv \<notin> set (map fst recognizedLevels) \<longrightarrow>
            ZeroLogPreRunE X flagPrefix prerunLevel cmd args w
            = (Returns (Some (ErrorString (''unknown log level: '' @ ToLower X lv))), cmd, w))
       \<and> Logger (snd (snd (ZeroLogPreRunE X flagPrefix prerunLevel cmd args w))) = Logger w"
proof -
  from assms(3) have f: "applyFormat X format w = w" by (simp add: applyFormat_def)
  note res = ZeroLogPreRunE_result [OF assms(1,2,4), of prerunLevel args w]
  have 1: "map_of recognizedLevels (ToLower X lv) = Some l \<longrightarrow>
            ZeroLogPreRunE X flagPrefix prerunLevel cmd args w
            = (Returns None, cmd,
               logEvent prerunLevel [(''new level'', ToLower X lv)] ''set log level''
                 (w\<lparr>GlobalLevel := l\<rparr>))"
    by (simp add: res f)
  have 2: "ToLower X lv \<notin> set (map fst recognizedLevels) \<longrightarrow>
            ZeroLogPreRunE X flagPrefix prerunLevel cmd args w
            = (Returns (Some (ErrorString (''unknown log level: '' @ ToLower X lv))), cmd, w)"
  proof
    assume "ToLower X lv \<notin> set (map fst recognizedLevels)"
    then have "map_of recognizedLevels (ToLower X lv) = None" by (simp add: recognized_None)
    then show "ZeroLogPreRunE X flagPrefix prerunLevel cmd args w
            = (Returns (Some (ErrorString (''unknown log level: '' @ ToLower X lv))), cmd, w)"
      by (simp add: res f)
  qed
  have 3: "Logger (snd (snd (ZeroLogPreRunE X flagPrefix prerunLevel cmd args w))) = Logger w"
    by (cases "map_of recognizedLevels (ToLower X lv)") (simp_all add: res f logEvent_def)
  from 1 2 3 show ?thesis by blast
qed

theorem ZeroLogPreRunE_format_not_checked_witness:
  "\<not> IsBuiltinCommand (serveCommand
       [given ''log-format'' (StringValue ''xml''), registered ''log-level'' (StringValue ''info'')])
   \<and> MustGetString (asciiExternals []) (serveCommand
       [given ''log-format'' (StringValue ''xml''), registered ''log-level'' (StringValue ''info'')])
       (DefaultEmpty ''log'' ''log'' @ ''-format'') = Some ''xml''
   \<and> ''xml'' \<notin> set [''auto'', ''human'', ''json'']
   \<and> MustGetString (asciiExternals []) (serveCommand
       [given ''log-format'' (StringValue ''xml''), registered ''log-level'' (StringValue ''info'')])
       (DefaultEmpty ''log'' ''log'' @ ''-level'') = Some ''info''
   \<and> map_of recognizedLevels (ToLower (asciiExternals []) ''info'') = Some InfoLevel
   \<and> ZeroLogPreRunE (asciiExternals []) ''log'' DebugLevel (serveCommand
       [given ''log-format'' (StringValue ''xml''), registered ''log-level'' (StringValue ''info'')])
       [] freshWorld
      = (Returns None,
         serveCommand
           [given ''log-format'' (StringValue ''xml''), registered ''log-level'' (StringValue ''info'')],
         logEvent DebugLevel [(''new level'', ToLower (asciiExternals []) ''info'')] ''set log level''
           (freshWorld\<lparr>GlobalLevel := InfoLevel\<rparr>))"
proof -
  let ?X = "asciiExternals []"
  let ?cmd = "serveCommand
       [given ''log-format'' (StringValue ''xml''), registered ''log-level'' (StringValue ''info'')]"
  have h1: "\<not> IsBuiltinCommand ?cmd" by code_simp
  have h2: "MustGetString ?X ?cmd (DefaultEmpty ''log'' ''log'' @ ''-format'') = Some ''xml''" by code_simp
  have h3: "''xml'' \<notin> set [''auto'', ''human'', ''json'']" by simp
  have h4: "MustGetString ?X ?cmd (DefaultEmpty ''log'' ''log'' @ ''-level'') = Some ''info''" by code_simp
  have h5: "map_of recognizedLevels (ToLower ?X ''info'') = Some InfoLevel" by code_simp
  from ZeroLogPreRunE_format_not_checked [OF h1 h2 h3 h4, of InfoLevel DebugLevel "[]" freshWorld] h5
  have "ZeroLogPreRunE ?X ''log'' DebugLevel ?cmd [] freshWorld
      = (Returns None, ?cmd,
         logEvent DebugLevel [(''new level'', ToLower ?X ''info'')] ''set log level''
           (freshWorld\<lparr>GlobalLevel := InfoLevel\<rparr>))" by blast
  with h1 h2 h3 h4 h5 show ?thesis by blast
qed

text \<open>
  The claim as stated fails: the format \<open>xml\<close> is outside the accepted set, and the hook
  succeeds and changes the global level.
\<close>

theorem ZeroLogPreRunE_format_counterexample:
  "''xml'' \<notin> set [''auto'', ''human'', ''json'']
   \<and> ZeroLogPreRunE (asciiExternals []) ''log'' DebugLevel (serveCommand
       [given ''log-format'' (StringValue ''xml''), given ''log-level'' (StringValue ''debug'')])
       [] freshWorld
      = (Returns None,
         serveCommand
           [given ''log-format'' (StringValue ''xml''), given ''log-level'' (StringValue ''debug'')],
         freshWorld\<lparr>GlobalLevel := DebugLevel,
                     Logged := [(DebugLevel, [(''new level'', ''debug'')], ''set log level'')]\<rparr>)
   \<and> GlobalLevel (freshWorld\<lparr>GlobalLevel := DebugLevel,
                     Logged := [(DebugLevel, [(''new level'', ''debug'')], ''set log level'')]\<rparr>)
       \<noteq> GlobalLevel freshWorld"
  by code_simp

text \<open>The two branches of \<open>OpenTelemetryPreRunE\<close> that do not build an exporter.\<close>

lemma OpenTelemetryPreRunE_result:
  assumes "\<not> IsBuiltinCommand cmd"
    and "MustGetString X cmd (DefaultEmpty flagPrefix ''otel'' @ ''-provider'') = Some p"
  shows "ToLower X p = ''none'' \<Longrightarrow>
           OpenTelemetryPreRunE X flagPrefix prerunLevel cmd args w
           = (Returns None, cmd,
              logEvent prerunLevel [(''new provider'', ''none'')] ''set tracing provider'' w)"
    and "ToLower X p \<noteq> ''none'' \<Longrightarrow> ToLower X p \<noteq> ''jaeger'' \<Longrightarrow>
           OpenTelemetryPreRunE X flagPrefix prerunLevel cmd args w
           = (Returns (Some (ErrorString (''unknown tracing provider: '' @ ToLower X p))), cmd, w)"
  using assms by (simp_all add: OpenTelemetryPreRunE_def Let_def)

text \<open>
  Claim C7. The provider is compared after lower-casing, as the source does. When it is
  \<open>none\<close>, the hook returned by \<open>OpenTelemetryPreRunE\<close> succeeds and has no tracing side
  effect: the global tracer provider and propagator are as before, and no network call is
  made. For every provider other than \<open>none\<close> and \<open>jaeger\<close> it fails with the error
  \<open>unknown tracing provider\<close> and the state is unchanged, so no tracer is installed.
\<close>

theorem OpenTelemetryPreRunE_none_and_unknown:
  assumes "\<not> IsBuiltinCommand cmd"
    and "MustGetString X cmd (DefaultEmpty flagPrefix ''otel'' @ ''-provider'') = Some p"
    and "OpenTelemetryPreRunE X flagPrefix prerunLevel cmd args w = (r, cmd', w')"
  shows "(ToLower X p = ''none'' \<longrightarrow>
            r = Returns None
            \<and> GlobalTracerProvider w' = GlobalTracerProvider w
            \<and> TextMapPropagator w' = TextMapPropagator w
            \<and> NetCalls w' = NetCalls w)
       \<and> (ToLower X p \<noteq> ''none'' \<and> ToLower X p \<noteq> ''jaeger'' \<longrightarrow>
            r = Returns (Some (ErrorString (''unknown tracing provider: '' @ ToLower X p)))
            \<and> w' = w)"
proof (intro conjI impI)
  assume a: "ToLower X p = ''none''"
  from OpenTelemetryPreRunE_result(1) [OF assms(1,2) a, of prerunLevel args w] assms(3)
  have r: "r = Returns None"
    and w': "w' = logEvent prerunLevel [(''new provider'', ''none'')] ''set tracing provider'' w"
    by simp_all
  show "r = Returns None" by (rule r)
  show "GlobalTracerProvider w' = GlobalTracerProvider w" by (simp add: w' logEvent_def)
  show "TextMapPropagator w' = TextMapPropagator w" by (simp add: w' logEvent_def)
  show "NetCalls w' = NetCalls w" by (simp add: w' logEvent_def)
next
  assume a: "ToLower X p \<noteq> ''none'' \<and> ToLower X p \<noteq> ''jaeger''"
  then have a1: "ToLower X p \<noteq> ''none''" and a2: "ToLower X p \<noteq> ''jaeger''" by simp_all
  from OpenTelemetryPreRunE_result(2) [OF assms(1,2) a1 a2, of prerunLevel args w] assms(3)
  show "r = Returns (Some (ErrorString (''unknown tracing provider: '' @ ToLower X p)))"
    and "w' = w" by simp_all
qed

theorem OpenTelemetryPreRunE_none_and_unknown_witness:
  "\<not> IsBuiltinCommand (tracedCommand ''zipkin'')
   \<and> MustGetString (asciiExternals []) (tracedCommand ''zipkin'')
        (DefaultEmpty [] ''otel'' @ ''-provider'') = Some ''zipkin''
   \<and> ToLower (asciiExternals []) ''zipkin'' \<noteq> ''none''
   \<and> ToLower (asciiExternals []) ''zipkin'' \<noteq> ''jaeger''
   \<and> OpenTelemetryPreRunE (asciiExternals []) [] InfoLevel (tracedCommand ''zipkin'') [] freshWorld
      = (Returns (Some (ErrorString ''unknown tracing provider: zipkin'')), tracedCommand ''zipkin'',
         freshWorld)
   \<and> \<not> IsBuiltinCommand (tracedCommand ''none'')
   \<and> MustGetString (asciiExternals []) (tracedCommand ''none'')
        (DefaultEmpty [] ''otel'' @ ''-provider'') = Some ''none''
   \<and> ToLower (asciiExternals []) ''none'' = ''none''
   \<and> OpenTelemetryPreRunE (asciiExternals []) [] InfoLevel (tracedCommand ''none'') [] freshWorld
      = (Returns None, tracedCommand ''none'',
         freshWorld\<lparr>Logged := [(InfoLevel, [(''new provider'', ''none'')], ''set tracing provider'')]\<rparr>)
   \<and> GlobalTracerProvider
        (freshWorld\<lparr>Logged := [(InfoLevel, [(''new provider'', ''none'')], ''set tracing provider'')]\<rparr>)
      = GlobalTracerProvider freshWorld"
proof -
  let ?X = "asciiExternals []"
  let ?w' = "freshWorld\<lparr>Logged := [(InfoLevel, [(''new provider'', ''none'')], ''set tracing provider'')]\<rparr>"
  have z1: "\<not> IsBuiltinCommand (tracedCommand ''zipkin'')" by code_simp
  have z2: "MustGetString ?X (tracedCommand ''zipkin'') (DefaultEmpty [] ''otel'' @ ''-provider'')
            = Some ''zipkin''" by code_simp
  have z3: "ToLower ?X ''zipkin'' \<noteq> ''none''" by code_simp
  have z4: "ToLower ?X ''zipkin'' \<noteq> ''jaeger''" by code_simp
  have z5: "OpenTelemetryPreRunE ?X [] InfoLevel (tracedCommand ''zipkin'') [] freshWorld
      = (Returns (Some (ErrorString ''unknown tracing provider: zipkin'')), tracedCommand ''zipkin'',
         freshWorld)" by code_simp
  have n1: "\<not> IsBuiltinCommand (tracedCommand ''none'')" by code_simp
  have n2: "MustGetString ?X (tracedCommand ''none'') (DefaultEmpty [] ''otel'' @ ''-provider'')
            = Some ''none''" by code_simp
  have n3: "ToLower ?X ''none'' = ''none''" by code_simp
  have n4: "OpenTelemetryPreRunE ?X [] InfoLevel (tracedCommand ''none'') [] freshWorld
      = (Returns None, tracedCommand ''none'', ?w')" by code_simp
  from OpenTelemetryPreRunE_none_and_unknown [OF n1 n2 n4] n3
  have n5: "GlobalTracerProvider ?w' = GlobalTracerProvider freshWorld" by blast
  from z1 z2 z3 z4 z5 n1 n2 n3 n4 n5 show ?thesis by blast
qed

text \<open>
  Replacing the text of the level flag, or of the provider flag, by its lower-cased form
  does not change what the hook does, when lower-casing that text twice is lower-casing it
  once.
\<close>

lemma ZeroLogPreRunE_lowered:
  assumes "MustGetString X cmd (DefaultEmpty flagPrefix ''log'' @ ''-level'') = Some lv"
    and "ToLower X (ToLower X lv) = ToLower X lv"
  shows "ZeroLogPreRunE (withFlagText X cmd (DefaultEmpty flagPrefix ''log'' @ ''-level'') (ToLower X lv))
           flagPrefix prerunLevel cmd args w
         = ZeroLogPreRunE X flagPrefix prerunLevel cmd args w"
  using assms by (simp add: ZeroLogPreRunE_def withFlagText_def Let_def split: option.splits)

lemma OpenTelemetryPreRunE_lowered:
  assumes "MustGetString X cmd (DefaultEmpty flagPrefix ''otel'' @ ''-provider'') = Some p"
    and "ToLower X (ToLower X p) = ToLower X p"
  shows "OpenTelemetryPreRunE
           (withFlagText X cmd (DefaultEmpty flagPrefix ''otel'' @ ''-provider'') (ToLower X p))
           flagPrefix prerunLevel cmd args w
         = OpenTelemetryPreRunE X flagPrefix prerunLevel cmd args w"
  using assms
  by (simp add: OpenTelemetryPreRunE_def initJaegerTracer_def withFlagText_def Let_def
           split: option.splits)

text \<open>
  Claim C10. The hooks returned by \<open>ZeroLogPreRunE\<close> and \<open>OpenTelemetryPreRunE\<close> take the
  level and the provider case-insensitively: for every text of the flag, the hook returns
  the same result and leaves the same state on the text and on its lower-cased form, since
  the text is lower-cased before matching. \<open>strings.ToLower\<close> is a parameter; the statement
  asks of it that lower-casing the text twice is lower-casing it once.
\<close>

theorem level_and_provider_case_insensitive:
  "(MustGetString X cmd (DefaultEmpty flagPrefix ''log'' @ ''-level'') = Some lv
      \<and> ToLower X (ToLower X lv) = ToLower X lv \<longrightarrow>
    ZeroLogPreRunE (withFlagText X cmd (DefaultEmpty flagPrefix ''log'' @ ''-level'') (ToLower X lv))
      flagPrefix prerunLevel cmd args w
    = ZeroLogPreRunE X flagPrefix prerunLevel cmd args w)
   \<and> (MustGetString X cmd (DefaultEmpty flagPrefix ''otel'' @ ''-provider'') = Some p
      \<and> ToLower X (ToLower X p) = ToLower X p \<longrightarrow>
    OpenTelemetryPreRunE
      (withFlagText X cmd (DefaultEmpty flagPrefix ''otel'' @ ''-provider'') (ToLower X p))
      flagPrefix prerunLevel cmd args w
    = OpenTelemetryPreRunE X flagPrefix prerunLevel cmd args w)"
  by (simp add: ZeroLogPreRunE_lowered OpenTelemetryPreRunE_lowered)

theorem level_and_provider_case_insensitive_witness:
  "MustGetString (asciiExternals [])
       (serveCommand [registered ''log-format'' (StringValue ''json''),
                      given ''log-level'' (StringValue ''WARN'')])
       (DefaultEmpty [] ''log'' @ ''-level'') = Some ''WARN''
   \<and> ToLower (asciiExternals []) (ToLower (asciiExternals []) ''WARN'')
      = ToLower (asciiExternals []) ''WARN''
   \<and> ZeroLogPreRunE
        (withFlagText (asciiExternals [])
           (serveCommand [registered ''log-format'' (StringValue ''json''),
                          given ''log-level'' (StringValue ''WARN'')])
           (DefaultEmpty [] ''log'' @ ''-level'') (ToLower (asciiExternals []) ''WARN''))
        [] InfoLevel
        (serveCommand [registered ''log-format'' (StringValue ''json''),
                       given ''log-level'' (StringValue ''WARN'')]) [] freshWorld
      = (Returns None,
         serveCommand [registered ''log-format'' (StringValue ''json''),
                       given ''log-level'' (StringValue ''WARN'')],
         freshWorld\<lparr>GlobalLevel := WarnLevel,
                     Logged := [(InfoLevel, [(''new level'', ''warn'')], ''set log level'')]\<rparr>)
   \<and> MustGetString (asciiExternals []) (tracedCommand ''Jaeger'')
       (DefaultEmpty [] ''otel'' @ ''-provider'') = Some ''Jaeger''
   \<and> ToLower (asciiExternals []) (ToLower (asciiExternals []) ''Jaeger'')
      = ToLower (asciiExternals []) ''Jaeger''
   \<and> OpenTelemetryPreRunE
        (withFlagText (asciiExternals []) (tracedCommand ''Jaeger'')
           (DefaultEmpty [] ''otel'' @ ''-provider'') (ToLower (asciiExternals []) ''Jaeger''))
        [] InfoLevel (tracedCommand ''Jaeger'') [] freshWorld
      = (Returns None, tracedCommand ''Jaeger'',
         freshWorld\<lparr>GlobalTracerProvider :=
                       Some (NewTracerProvider AlwaysSample
                               (BatchSpanProcessor (JaegerCollector ''http://jaeger:14268/api/traces''))
                               ''svc''),
                     TextMapPropagator := Some TraceContext\<rparr>)"
proof -
  let ?X = "asciiExternals []"
  let ?cmd = "serveCommand [registered ''log-format'' (StringValue ''json''),
                            given ''log-level'' (StringValue ''WARN'')]"
  have l1: "MustGetString ?X ?cmd (DefaultEmpty [] ''log'' @ ''-level'') = Some ''WARN''" by code_simp
  have l2: "ToLower ?X (ToLower ?X ''WARN'') = ToLower ?X ''WARN''" by code_simp
  have l3: "ZeroLogPreRunE ?X [] InfoLevel ?cmd [] freshWorld
      = (Returns None, ?cmd,
         freshWorld\<lparr>GlobalLevel := WarnLevel,
                     Logged := [(InfoLevel, [(''new level'', ''warn'')], ''set log level'')]\<rparr>)"
    by code_simp
  have j1: "MustGetString ?X (tracedCommand ''Jaeger'') (DefaultEmpty [] ''otel'' @ ''-provider'')
            = Some ''Jaeger''" by code_simp
  have j2: "ToLower ?X (ToLower ?X ''Jaeger'') = ToLower ?X ''Jaeger''" by code_simp
  have j3: "OpenTelemetryPreRunE ?X [] InfoLevel (tracedCommand ''Jaeger'') [] freshWorld
      = (Returns None, tracedCommand ''Jaeger'',
         freshWorld\<lparr>GlobalTracerProvider :=
                       Some (NewTracerProvider AlwaysSample
                               (BatchSpanProcessor (JaegerCollector ''http://jaeger:14268/api/traces''))
                               ''svc''),
                     TextMapPropagator := Some TraceContext\<rparr>)"
    by code_simp
  from level_and_provider_case_insensitive
         [of ?X ?cmd "[]" "''WARN''" InfoLevel "[]" freshWorld "''Jaeger''"] l1 l2
  have l4: "ZeroLogPreRunE
        (withFlagText ?X ?cmd (DefaultEmpty [] ''log'' @ ''-level'') (ToLower ?X ''WARN''))
        [] InfoLevel ?cmd [] freshWorld
      = ZeroLogPreRunE ?X [] InfoLevel ?cmd [] freshWorld" by blast
  from level_and_provider_case_insensitive
         [of ?X "tracedCommand ''Jaeger''" "[]" "''WARN''" InfoLevel "[]" freshWorld "''Jaeger''"] j1 j2
  have j4: "OpenTelemetryPreRunE
        (withFlagText ?X (tracedCommand ''Jaeger'') (DefaultEmpty [] ''otel'' @ ''-provider'')
           (ToLower ?X ''Jaeger''))
        [] InfoLevel (tracedCommand ''Jaeger'') [] freshWorld
      = OpenTelemetryPreRunE ?X [] InfoLevel (tracedCommand ''Jaeger'') [] freshWorld" by blast
  from l1 l2 l3 l4 j1 j2 j3 j4 show ?thesis by simp
qed

section \<open>Properties of the server functions\<close>

text \<open>
  The results of the three functions that branch, once the flags they read are there: the
  switch of \<open>GrpcServerFromFlags\<close>, the switch of \<open>HttpListenFromFlags\<close> when enabled, and
  listen-then-serve of \<open>GrpcListenFromFlags\<close> when enabled. Both listen functions return at
  once when the enabled flag is false.
\<close>

lemma GrpcServerFromFlags_result:
  assumes "MustGetDuration X cmd (DefaultEmpty flagPrefix ''grpc'' @ ''-max-conn-age'') = Some age"
    and "MustGetStringExpanded X cmd (DefaultEmpty flagPrefix ''grpc'' @ ''-tls-cert-path'') = Some certPath"
    and "MustGetStringExpanded X cmd (DefaultEmpty flagPrefix ''grpc'' @ ''-tls-key-path'') = Some keyPath"
  shows "GrpcServerFromFlags X cmd flagPrefix opts w =
     (if certPath = [] \<and> keyPath = [] then
        (Returns (Inr (NewServer (opts @ [KeepaliveParams age]))),
         logEvent WarnLevel [(''prefix'', DefaultEmpty flagPrefix ''grpc'')]
           ''grpc server serving plaintext'' w)
      else if certPath \<noteq> [] \<and> keyPath \<noteq> [] then
        (case NewServerTLSFromFile X certPath keyPath of
           Some err \<Rightarrow> (Returns (Inl err), w)
         | None \<Rightarrow>
             (Returns (Inr (NewServer (opts @ [KeepaliveParams age,
                                               Creds (ServerTLSFromFile certPath keyPath)]))), w))
      else (Returns (Inl (pairingError ''gRPC'' (DefaultEmpty flagPrefix ''grpc''))), w))"
  using assms by (simp add: GrpcServerFromFlags_def Let_def pairingError_def split: option.splits)

lemma HttpListenFromFlags_result:
  assumes "MustGetBool X cmd (flagPrefix @ ''-enabled'') = Some True"
    and "MustGetStringExpanded X cmd (flagPrefix @ ''-tls-cert-path'') = Some certPath"
    and "MustGetStringExpanded X cmd (flagPrefix @ ''-tls-key-path'') = Some keyPath"
  shows "HttpListenFromFlags X cmd flagPrefix srv w =
     (if certPath = [] \<and> keyPath = [] then
        (case ListenAndServe X srv of
           None \<Rightarrow> Returns None
         | Some err \<Rightarrow> if err = ErrServerClosed then Returns None
                       else Returns (Some (Wrapped ''failed while serving http'' err)),
         netCall (ListenAndServeCall srv)
           (logEvent WarnLevel [(''prefix'', flagPrefix)] ''http server serving plaintext'' w))
      else if certPath \<noteq> [] \<and> keyPath \<noteq> [] then
        (case ListenAndServeTLS X srv certPath keyPath of
           None \<Rightarrow> Returns None
         | Some err \<Rightarrow> if err = ErrServerClosed then Returns None
                       else Returns (Some (Wrapped ''failed while serving https'' err)),
         netCall (ListenAndServeTLSCall srv certPath keyPath) w)
      else (Returns (Some (pairingError ''http'' flagPrefix)), w))"
  using assms
  by (simp add: HttpListenFromFlags_def Let_def pairingError_def split: option.splits)

lemma GrpcListenFromFlags_result:
  assumes "MustGetBool X cmd (DefaultEmpty flagPrefix ''grpc'' @ ''-enabled'') = Some True"
    and "MustGetStringExpanded X cmd (DefaultEmpty flagPrefix ''grpc'' @ ''-addr'') = Some addr"
  shows "GrpcListenFromFlags X cmd flagPrefix srv w =
     (case NetListen X addr of
        Some err \<Rightarrow> (Returns (Some (Wrapped ''failed to listen on addr for gRPC server'' err)),
                     netCall (ListenCall addr) w)
      | None \<Rightarrow>
          (case Serve X srv addr of
             Some err \<Rightarrow> Returns (Some (Wrapped ''failed to serve gRPC'' err))
           | None \<Rightarrow> Returns None,
           netCall (ServeCall srv addr) (netCall (ListenCall addr) w)))"
  using assms by (simp add: GrpcListenFromFlags_def Let_def split: option.splits)


text \<open>
  Claim C2, as the code has it. \<open>GrpcServerFromFlags\<close> fails construction with the error
  \<open>must provide both\<close> whenever exactly one of the certificate and key paths is non-empty;
  with both empty it builds a plaintext server (the caller's options and the keepalive) and
  logs a warning, and with both non-empty it builds a server with the credentials loaded
  from the two files, or fails with the error of the load. For HTTP, construction by
  \<open>HttpServerFromFlags\<close> reads the address alone and returns the server whatever the TLS
  flags are. The three-way branch is in \<open>HttpListenFromFlags\<close>, and is reached only when the
  enabled flag is true: exactly one path gives the error \<open>must provide both\<close> with the state
  untouched, both empty serve plaintext, both non-empty serve TLS with the two paths.
\<close>

theorem ServerFromFlags_tls_pairing:
  "(MustGetDuration X cmd (DefaultEmpty gp ''grpc'' @ ''-max-conn-age'') = Some age
      \<and> MustGetStringExpanded X cmd (DefaultEmpty gp ''grpc'' @ ''-tls-cert-path'') = Some certPath
      \<and> MustGetStringExpanded X cmd (DefaultEmpty gp ''grpc'' @ ''-tls-key-path'') = Some keyPath
    \<longrightarrow>
      ((certPath = []) \<noteq> (keyPath = []) \<longrightarrow>
         GrpcServerFromFlags X cmd gp opts w
         = (Returns (Inl (pairingError ''gRPC'' (DefaultEmpty gp ''grpc''))), w))
      \<and> (certPath = [] \<and> keyPath = [] \<longrightarrow>
         GrpcServerFromFlags X cmd gp opts w
         = (Returns (Inr (NewServer (opts @ [KeepaliveParams age]))),
            logEvent WarnLevel [(''prefix'', DefaultEmpty gp ''grpc'')]
              ''grpc server serving plaintext'' w))
      \<and> (certPath \<noteq> [] \<and> keyPath \<noteq> [] \<and> NewServerTLSFromFile X certPath keyPath = None \<longrightarrow>
         GrpcServerFromFlags X cmd gp opts w
         = (Returns (Inr (NewServer (opts @ [KeepaliveParams age,
                                             Creds (ServerTLSFromFile certPath keyPath)]))), w))
      \<and> (certPath \<noteq> [] \<and> keyPath \<noteq> [] \<and> NewServerTLSFromFile X certPath keyPath = Some err \<longrightarrow>
         GrpcServerFromFlags X cmd gp opts w = (Returns (Inl err), w)))
   \<and> (MustGetStringExpanded X cmd (DefaultEmpty hp ''http'' @ ''-addr'') = Some addr \<longrightarrow>
        HttpServerFromFlags X cmd hp = Returns \<lparr>Addr = addr\<rparr>)
   \<and> (MustGetBool X cmd (hp @ ''-enabled'') = Some True
      \<and> MustGetStringExpanded X cmd (hp @ ''-tls-cert-path'') = Some hcert
      \<and> MustGetStringExpanded X cmd (hp @ ''-tls-key-path'') = Some hkey
    \<longrightarrow>
      ((hcert = []) \<noteq> (hkey = []) \<longrightarrow>
         HttpListenFromFlags X cmd hp srv w = (Returns (Some (pairingError ''http'' hp)), w))
      \<and> (hcert = [] \<and> hkey = [] \<longrightarrow>
         snd (HttpListenFromFlags X cmd hp srv w)
         = netCall (ListenAndServeCall srv)
             (logEvent WarnLevel [(''prefix'', hp)] ''http server serving plaintext'' w))
      \<and> (hcert \<noteq> [] \<and> hkey \<noteq> [] \<longrightarrow>
         snd (HttpListenFromFlags X cmd hp srv w)
         = netCall (ListenAndServeTLSCall srv hcert hkey) w))"
proof (intro conjI impI)
  assume a: "MustGetDuration X cmd (DefaultEmpty gp ''grpc'' @ ''-max-conn-age'') = Some age
      \<and> MustGetStringExpanded X cmd (DefaultEmpty gp ''grpc'' @ ''-tls-cert-path'') = Some certPath
      \<and> MustGetStringExpanded X cmd (DefaultEmpty gp ''grpc'' @ ''-tls-key-path'') = Some keyPath"
  then have res: "\<And>opts w. GrpcServerFromFlags X cmd gp opts w =
     (if certPath = [] \<and> keyPath = [] then
        (Returns (Inr (NewServer (opts @ [KeepaliveParams age]))),
         logEvent WarnLevel [(''prefix'', DefaultEmpty gp ''grpc'')]
           ''grpc server serving plaintext'' w)
      else if certPath \<noteq> [] \<and> keyPath \<noteq> [] then
        (case NewServerTLSFromFile X certPath keyPath of
           Some err \<Rightarrow> (Returns (Inl err), w)
         | None \<Rightarrow>
             (Returns (Inr (NewServer (opts @ [KeepaliveParams age,
                                               Creds (ServerTLSFromFile certPath keyPath)]))), w))
      else (Returns (Inl (pairingError ''gRPC'' (DefaultEmpty gp ''grpc''))), w))"
    by (simp add: GrpcServerFromFlags_result)
  { assume "(certPath = []) \<noteq> (keyPath = [])"
    then show "GrpcServerFromFlags X cmd gp opts w
         = (Returns (Inl (pairingError ''gRPC'' (DefaultEmpty gp ''grpc''))), w)"
      by (auto simp: res) }
  { assume "certPath = [] \<and> keyPath = []"
    then show "GrpcServerFromFlags X cmd gp opts w
         = (Returns (Inr (NewServer (opts @ [KeepaliveParams age]))),
            logEvent WarnLevel [(''prefix'', DefaultEmpty gp ''grpc'')]
              ''grpc server serving plaintext'' w)"
      by (simp add: res) }
  { assume "certPath \<noteq> [] \<and> keyPath \<noteq> [] \<and> NewServerTLSFromFile X certPath keyPath = None"
    then show "GrpcServerFromFlags X cmd gp opts w
         = (Returns (Inr (NewServer (opts @ [KeepaliveParams age,
                                             Creds (ServerTLSFromFile certPath keyPath)]))), w)"
      by (simp add: res) }
  { assume "certPath \<noteq> [] \<and> keyPath \<noteq> [] \<and> NewServerTLSFromFile X certPath keyPath = Some err"
    then show "GrpcServerFromFlags X cmd gp opts w = (Returns (Inl err), w)"
      by (simp add: res) }
next
  assume "MustGetStringExpanded X cmd (DefaultEmpty hp ''http'' @ ''-addr'') = Some addr"
  then show "HttpServerFromFlags X cmd hp = Returns \<lparr>Addr = addr\<rparr>"
    by (simp add: HttpServerFromFlags_def Let_def)
next
  assume a: "MustGetBool X cmd (hp @ ''-enabled'') = Some True
      \<and> MustGetStringExpanded X cmd (hp @ ''-tls-cert-path'') = Some hcert
      \<and> MustGetStringExpanded X cmd (hp @ ''-tls-key-path'') = Some hkey"
  then have e: "MustGetBool X cmd (hp @ ''-enabled'') = Some True"
    and c: "MustGetStringExpanded X cmd (hp @ ''-tls-cert-path'') = Some hcert"
    and k: "MustGetStringExpanded X cmd (hp @ ''-tls-key-path'') = Some hkey" by simp_all
  note res = HttpListenFromFlags_result [OF e c k, of srv w]
  { assume "(hcert = []) \<noteq> (hkey = [])"
    then show "HttpListenFromFlags X cmd hp srv w = (Returns (Some (pairingError ''http'' hp)), w)"
      by (auto simp: res) }
  { assume "hcert = [] \<and> hkey = []"
    then show "snd (HttpListenFromFlags X cmd hp srv w)
         = netCall (ListenAndServeCall srv)
             (logEvent WarnLevel [(''prefix'', hp)] ''http server serving plaintext'' w)"
      by (simp add: res) }
  { assume "hcert \<noteq> [] \<and> hkey \<noteq> []"
    then show "snd (HttpListenFromFlags X cmd hp srv w)
         = netCall (ListenAndServeTLSCall srv hcert hkey) w"
      by (simp add: res) }
qed

text \<open>
  The claim as stated fails for HTTP: with a certificate path and no key path, construction
  returns the server, and listening with the enabled flag false returns \<open>nil\<close>.
\<close>

theorem ServerFromFlags_tls_pairing_counterexample:
  "MustGetStringExpanded (asciiExternals []) (serverCommand ''http'' False ''cert.pem'' [])
      ''http-tls-cert-path'' = Some ''cert.pem''
   \<and> MustGetStringExpanded (asciiExternals []) (serverCommand ''http'' False ''cert.pem'' [])
      ''http-tls-key-path'' = Some []
   \<and> HttpServerFromFlags (asciiExternals []) (serverCommand ''http'' False ''cert.pem'' []) ''http''
      = Returns \<lparr>Addr = '':0''\<rparr>
   \<and> HttpListenFromFlags (asciiExternals []) (serverCommand ''http'' False ''cert.pem'' []) ''http''
        \<lparr>Addr = '':0''\<rparr> freshWorld
      = (Returns None, freshWorld)"
  by code_simp

theorem ServerFromFlags_tls_pairing_witness:
  "MustGetDuration (asciiExternals []) (serverCommand ''grpc'' True ''cert.pem'' [])
      (DefaultEmpty [] ''grpc'' @ ''-max-conn-age'') = Some 30000000000
   \<and> MustGetStringExpanded (asciiExternals []) (serverCommand ''grpc'' True ''cert.pem'' [])
      (DefaultEmpty [] ''grpc'' @ ''-tls-cert-path'') = Some ''cert.pem''
   \<and> MustGetStringExpanded (asciiExternals []) (serverCommand ''grpc'' True ''cert.pem'' [])
      (DefaultEmpty [] ''grpc'' @ ''-tls-key-path'') = Some []
   \<and> (''cert.pem'' = []) \<noteq> (([] :: string) = [])
   \<and> GrpcServerFromFlags (asciiExternals []) (serverCommand ''grpc'' True ''cert.pem'' []) [] []
        freshWorld
      = (Returns (Inl (pairingError ''gRPC'' (DefaultEmpty [] ''grpc''))), freshWorld)
   \<and> MustGetBool (asciiExternals []) (serverCommand ''http'' True [] ''key.pem'')
      (''http'' @ ''-enabled'') = Some True
   \<and> MustGetStringExpanded (asciiExternals []) (serverCommand ''http'' True [] ''key.pem'')
      (''http'' @ ''-tls-cert-path'') = Some []
   \<and> MustGetStringExpanded (asciiExternals []) (serverCommand ''http'' True [] ''key.pem'')
      (''http'' @ ''-tls-key-path'') = Some ''key.pem''
   \<and> (([] :: string) = []) \<noteq> (''key.pem'' = [])
   \<and> HttpListenFromFlags (asciiExternals []) (serverCommand ''http'' True [] ''key.pem'') ''http''
        \<lparr>Addr = '':0''\<rparr> freshWorld
      = (Returns (Some (pairingError ''http'' ''http'')), freshWorld)"
proof -
  let ?X = "asciiExternals []"
  let ?g = "serverCommand ''grpc'' True ''cert.pem'' []"
  let ?h = "serverCommand ''http'' True [] ''key.pem''"
  have g1: "MustGetDuration ?X ?g (DefaultEmpty [] ''grpc'' @ ''-max-conn-age'') = Some 30000000000"
    by code_simp
  have g2: "MustGetStringExpanded ?X ?g (DefaultEmpty [] ''grpc'' @ ''-tls-cert-path'') = Some ''cert.pem''"
    by code_simp
  have g3: "MustGetStringExpanded ?X ?g (DefaultEmpty [] ''grpc'' @ ''-tls-key-path'') = Some []"
    by code_simp
  have g4: "(''cert.pem'' = []) \<noteq> (([] :: string) = [])" by simp
  have h1: "MustGetBool ?X ?h (''http'' @ ''-enabled'') = Some True" by code_simp
  have h2: "MustGetStringExpanded ?X ?h (''http'' @ ''-tls-cert-path'') = Some []" by code_simp
  have h3: "MustGetStringExpanded ?X ?h (''http'' @ ''-tls-key-path'') = Some ''key.pem''" by code_simp
  have h4: "(([] :: string) = []) \<noteq> (''key.pem'' = [])" by simp
  from ServerFromFlags_tls_pairing
         [where X = ?X and cmd = ?g and gp = "[]" and age = 30000000000 and certPath = "''cert.pem''"
            and keyPath = "[]" and opts = "[]" and w = freshWorld]
       g1 g2 g3 g4
  have g5: "GrpcServerFromFlags ?X ?g [] [] freshWorld
      = (Returns (Inl (pairingError ''gRPC'' (DefaultEmpty [] ''grpc''))), freshWorld)"
    by blast
  from ServerFromFlags_tls_pairing
         [where X = ?X and cmd = ?h and hp = "''http''" and hcert = "[]" and hkey = "''key.pem''"
            and srv = "\<lparr>Addr = '':0''\<rparr>" and w = freshWorld]
       h1 h2 h3 h4
  have h5: "HttpListenFromFlags ?X ?h ''http'' \<lparr>Addr = '':0''\<rparr> freshWorld
      = (Returns (Some (pairingError ''http'' ''http'')), freshWorld)"
    by blast
  from g1 g2 g3 g4 g5 h1 h2 h3 h4 h5 show ?thesis by blast
qed



text \<open>
  Claim C9. When serving, both functions return \<open>nil\<close> when the serve call ends with the
  server's report of a clean shutdown, and return any other error of the serve call under a
  context. For HTTP the report is the error \<open>http.ErrServerClosed\<close>, which
  \<open>HttpListenFromFlags\<close> turns into \<open>nil\<close>, every other error coming back under
  \<open>failed while serving http\<close> (\<open>https\<close> with TLS). For gRPC the report is \<open>Serve\<close>
  returning \<open>nil\<close>, and \<open>GrpcListenFromFlags\<close> returns every error of \<open>Serve\<close> under
  \<open>failed to serve gRPC\<close>.
\<close>

theorem ListenFromFlags_serve_errors:
  "(MustGetBool X cmd (DefaultEmpty gp ''grpc'' @ ''-enabled'') = Some True
      \<and> MustGetStringExpanded X cmd (DefaultEmpty gp ''grpc'' @ ''-addr'') = Some addr
      \<and> NetListen X addr = None
    \<longrightarrow>
      (Serve X gsrv addr = None \<longrightarrow>
         fst (GrpcListenFromFlags X cmd gp gsrv w) = Returns None)
      \<and> (Serve X gsrv addr = Some gerr \<longrightarrow>
         fst (GrpcListenFromFlags X cmd gp gsrv w)
         = Returns (Some (Wrapped ''failed to serve gRPC'' gerr))))
   \<and> (MustGetBool X cmd (hp @ ''-enabled'') = Some True
      \<and> MustGetStringExpanded X cmd (hp @ ''-tls-cert-path'') = Some []
      \<and> MustGetStringExpanded X cmd (hp @ ''-tls-key-path'') = Some []
    \<longrightarrow>
      (ListenAndServe X hsrv = Some ErrServerClosed \<or> ListenAndServe X hsrv = None \<longrightarrow>
         fst (HttpListenFromFlags X cmd hp hsrv w) = Returns None)
      \<and> (ListenAndServe X hsrv = Some herr \<and> herr \<noteq> ErrServerClosed \<longrightarrow>
         fst (HttpListenFromFlags X cmd hp hsrv w)
         = Returns (Some (Wrapped ''failed while serving http'' herr))))
   \<and> (MustGetBool X cmd (tp @ ''-enabled'') = Some True
      \<and> MustGetStringExpanded X cmd (tp @ ''-tls-cert-path'') = Some certPath
      \<and> MustGetStringExpanded X cmd (tp @ ''-tls-key-path'') = Some keyPath
      \<and> certPath \<noteq> [] \<and> keyPath \<noteq> []
    \<longrightarrow>
      (ListenAndServeTLS X tsrv certPath keyPath = Some ErrServerClosed
         \<or> ListenAndServeTLS X tsrv certPath keyPath = None \<longrightarrow>
         fst (HttpListenFromFlags X cmd tp tsrv w) = Returns None)
      \<and> (ListenAndServeTLS X tsrv certPath keyPath = Some terr \<and> terr \<noteq> ErrServerClosed \<longrightarrow>
         fst (HttpListenFromFlags X cmd tp tsrv w)
         = Returns (Some (Wrapped ''failed while serving https'' terr))))"
proof (intro conjI impI)
  assume a: "MustGetBool X cmd (DefaultEmpty gp ''grpc'' @ ''-enabled'') = Some True
      \<and> MustGetStringExpanded X cmd (DefaultEmpty gp ''grpc'' @ ''-addr'') = Some addr
      \<and> NetListen X addr = None"
  then have e: "MustGetBool X cmd (DefaultEmpty gp ''grpc'' @ ''-enabled'') = Some True"
    and d: "MustGetStringExpanded X cmd (DefaultEmpty gp ''grpc'' @ ''-addr'') = Some addr"
    and l: "NetListen X addr = None" by simp_all
  note res = GrpcListenFromFlags_result [OF e d, of gsrv w]
  { assume "Serve X gsrv addr = None"
    then show "fst (GrpcListenFromFlags X cmd gp gsrv w) = Returns None"
      by (simp add: res l) }
  { assume "Serve X gsrv addr = Some gerr"
    then show "fst (GrpcListenFromFlags X cmd gp gsrv w)
         = Returns (Some (Wrapped ''failed to serve gRPC'' gerr))"
      by (simp add: res l) }
next
  assume a: "MustGetBool X cmd (hp @ ''-enabled'') = Some True
      \<and> MustGetStringExpanded X cmd (hp @ ''-tls-cert-path'') = Some []
      \<and> MustGetStringExpanded X cmd (hp @ ''-tls-key-path'') = Some []"
  then have e: "MustGetBool X cmd (hp @ ''-enabled'') = Some True"
    and c: "MustGetStringExpanded X cmd (hp @ ''-tls-cert-path'') = Some []"
    and k: "MustGetStringExpanded X cmd (hp @ ''-tls-key-path'') = Some []" by simp_all
  note res = HttpListenFromFlags_result [OF e c k, of hsrv w]
  { assume "ListenAndServe X hsrv = Some ErrServerClosed \<or> ListenAndServe X hsrv = None"
    then show "fst (HttpListenFromFlags X cmd hp hsrv w) = Returns None"
      by (auto simp: res) }
  { assume "ListenAndServe X hsrv = Some herr \<and> herr \<noteq> ErrServerClosed"
    then show "fst (HttpListenFromFlags X cmd hp hsrv w)
         = Returns (Some (Wrapped ''failed while serving http'' herr))"
      by (simp add: res) }
next
  assume a: "MustGetBool X cmd (tp @ ''-enabled'') = Some True
      \<and> MustGetStringExpanded X cmd (tp @ ''-tls-cert-path'') = Some certPath
      \<and> MustGetStringExpanded X cmd (tp @ ''-tls-key-path'') = Some keyPath
      \<and> certPath \<noteq> [] \<and> keyPath \<noteq> []"
  then have e: "MustGetBool X cmd (tp @ ''-enabled'') = Some True"
    and c: "MustGetStringExpanded X cmd (tp @ ''-tls-cert-path'') = Some certPath"
    and k: "MustGetStringExpanded X cmd (tp @ ''-tls-key-path'') = Some keyPath"
    and n: "certPath \<noteq> []" "keyPath \<noteq> []" by simp_all
  note res = HttpListenFromFlags_result [OF e c k, of tsrv w]
  { assume "ListenAndServeTLS X tsrv certPath keyPath = Some ErrServerClosed
         \<or> ListenAndServeTLS X tsrv certPath keyPath = None"
    then show "fst (HttpListenFromFlags X cmd tp tsrv w) = Returns None"
      using n by (auto simp: res) }
  { assume "ListenAndServeTLS X tsrv certPath keyPath = Some terr \<and> terr \<noteq> ErrServerClosed"
    then show "fst (HttpListenFromFlags X cmd tp tsrv w)
         = Returns (Some (Wrapped ''failed while serving https'' terr))"
      using n by (simp add: res) }
qed

theorem ListenFromFlags_serve_errors_witness:
  "MustGetBool (serveEnds (Some (ErrorString ''accept tcp: too many open files'')) (Some ErrServerClosed))
      (serverCommand ''grpc'' True [] []) (DefaultEmpty [] ''grpc'' @ ''-enabled'') = Some True
   \<and> MustGetStringExpanded
        (serveEnds (Some (ErrorString ''accept tcp: too many open files'')) (Some ErrServerClosed))
        (serverCommand ''grpc'' True [] []) (DefaultEmpty [] ''grpc'' @ ''-addr'') = Some '':0''
   \<and> NetListen (serveEnds (Some (ErrorString ''accept tcp: too many open files'')) (Some ErrServerClosed))
        '':0'' = None
   \<and> Serve (serveEnds (Some (ErrorString ''accept tcp: too many open files'')) (Some ErrServerClosed))
        (NewServer []) '':0'' = Some (ErrorString ''accept tcp: too many open files'')
   \<and> fst (GrpcListenFromFlags
             (serveEnds (Some (ErrorString ''accept tcp: too many open files'')) (Some ErrServerClosed))
             (serverCommand ''grpc'' True [] []) [] (NewServer []) freshWorld)
      = Returns (Some (Wrapped ''failed to serve gRPC''
                         (ErrorString ''accept tcp: too many open files'')))
   \<and> MustGetBool (serveEnds (Some (ErrorString ''accept tcp: too many open files'')) (Some ErrServerClosed))
      (serverCommand ''http'' True [] []) (''http'' @ ''-enabled'') = Some True
   \<and> MustGetStringExpanded
        (serveEnds (Some (ErrorString ''accept tcp: too many open files'')) (Some ErrServerClosed))
        (serverCommand ''http'' True [] []) (''http'' @ ''-tls-cert-path'') = Some []
   \<and> MustGetStringExpanded
        (serveEnds (Some (ErrorString ''accept tcp: too many open files'')) (Some ErrServerClosed))
        (serverCommand ''http'' True [] []) (''http'' @ ''-tls-key-path'') = Some []
   \<and> ListenAndServe
        (serveEnds (Some (ErrorString ''accept tcp: too many open files'')) (Some ErrServerClosed))
        \<lparr>Addr = '':0''\<rparr> = Some ErrServerClosed
   \<and> fst (HttpListenFromFlags
             (serveEnds (Some (ErrorString ''accept tcp: too many open files'')) (Some ErrServerClosed))
             (serverCommand ''http'' True [] []) ''http'' \<lparr>Addr = '':0''\<rparr> freshWorld)
      = Returns None"
proof -
  let ?e = "ErrorString ''accept tcp: too many open files''"
  let ?X = "serveEnds (Some ?e) (Some ErrServerClosed)"
  let ?g = "serverCommand ''grpc'' True [] []"
  let ?h = "serverCommand ''http'' True [] []"
  have g1: "MustGetBool ?X ?g (DefaultEmpty [] ''grpc'' @ ''-enabled'') = Some True" by code_simp
  have g2: "MustGetStringExpanded ?X ?g (DefaultEmpty [] ''grpc'' @ ''-addr'') = Some '':0''"
    by code_simp
  have g3: "NetListen ?X '':0'' = None" by code_simp
  have g4: "Serve ?X (NewServer []) '':0'' = Some ?e" by code_simp
  have h1: "MustGetBool ?X ?h (''http'' @ ''-enabled'') = Some True" by code_simp
  have h2: "MustGetStringExpanded ?X ?h (''http'' @ ''-tls-cert-path'') = Some []" by code_simp
  have h3: "MustGetStringExpanded ?X ?h (''http'' @ ''-tls-key-path'') = Some []" by code_simp
  have h4: "ListenAndServe ?X \<lparr>Addr = '':0''\<rparr> = Some ErrServerClosed" by code_simp
  from ListenFromFlags_serve_errors
         [where X = ?X and cmd = ?g and gp = "[]" and addr = "'':0''" and gsrv = "NewServer []"
            and gerr = ?e and w = freshWorld]
       g1 g2 g3 g4
  have g5: "fst (GrpcListenFromFlags ?X ?g [] (NewServer []) freshWorld)
            = Returns (Some (Wrapped ''failed to serve gRPC'' ?e))"
    by blast
  from ListenFromFlags_serve_errors
         [where X = ?X and cmd = ?h and hp = "''http''" and hsrv = "\<lparr>Addr = '':0''\<rparr>"
            and w = freshWorld]
       h1 h2 h3 h4
  have h5: "fst (HttpListenFromFlags ?X ?h ''http'' \<lparr>Addr = '':0''\<rparr> freshWorld) = Returns None"
    by blast
  from g1 g2 g3 g4 g5 h1 h2 h3 h4 h5 show ?thesis by blast
qed

end
